theory Spec2Isabelle
  imports Main "HOL-Library.Word" "HOL-Library.Code_Target_Nat"
begin

section \<open>Library functions the program calls\<close>

text \<open>
  Go strings are byte sequences, modelled as \<open>string\<close>. The program only ever searches for
  and splits on the one-byte separators \<open>:\<close>, \<open>,\<close> and \<open>-\<close>, so \<open>strings.Contains\<close> and
  \<open>strings.Split\<close> take a single character as separator here.
\<close>

definition Contains :: "string \<Rightarrow> char \<Rightarrow> bool" where
  "Contains s c = (c \<in> set s)"

text \<open>
  \<open>strings.Split(s, sep)\<close>: the pieces of \<open>s\<close> between the occurrences of \<open>sep\<close>; one piece
  more than there are separators, so never an empty slice.
\<close>

fun Split :: "string \<Rightarrow> char \<Rightarrow> string list" where
  "Split [] c = [[]]"
| "Split (x # xs) c =
     (if x = c then [] # Split xs c
      else (case Split xs c of [] \<Rightarrow> [[x]] | p # ps \<Rightarrow> (x # p) # ps))"

text \<open>
  What the process can die of: a slice index out of range, an integer division by zero,
  the panic of \<open>image.NewRGBA\<close> on a rectangle of huge dimensions, and an allocation
  that the runtime cannot serve.
\<close>

datatype panic = IndexOutOfRange | DivideByZero | HugeDimensions | OutOfMemory

datatype num_err = ErrSyntax | ErrRange

text \<open>
  The error values the parsing functions return: the one \<open>minMaxXY\<close> creates with
  \<open>errors.New\<close>, and the \<open>*strconv.NumError\<close> of \<open>Atoi\<close> and \<open>ParseUint\<close> with the offending
  input and the kind of the error.
\<close>

datatype error = NeedComma | NumError string num_err

datatype failure = Error error | Panic panic

text \<open>Indexing a slice: \<open>xs[i]\<close> panics when \<open>i\<close> is out of range.\<close>

definition at :: "'a list \<Rightarrow> nat \<Rightarrow> panic + 'a" where
  "at xs i = (if i < length xs then Inr (xs ! i) else Inl IndexOutOfRange)"

definition is_digit :: "char \<Rightarrow> bool" where
  "is_digit c = (48 \<le> (of_char c :: nat) \<and> (of_char c :: nat) \<le> 57)"

definition digit_val :: "char \<Rightarrow> nat" where
  "digit_val c = (of_char c :: nat) - 48"

text \<open>
  The digit loop of \<open>strconv.ParseUint\<close> in base 10: a byte that is not a digit is a syntax
  error; a value that passes \<open>maxVal\<close> is a range error, reported at the digit where it
  happens.
\<close>

fun parse_digits :: "nat \<Rightarrow> string \<Rightarrow> nat \<Rightarrow> num_err + nat" where
  "parse_digits maxVal [] n = Inr n"
| "parse_digits maxVal (c # cs) n =
     (if \<not> is_digit c then Inl ErrSyntax
      else if maxVal < 10 * n + digit_val c then Inl ErrRange
      else parse_digits maxVal cs (10 * n + digit_val c))"

text \<open>\<open>strconv.ParseUint(s, 10, 8)\<close>: no sign, at least one digit, at most 255.\<close>

definition ParseUint8 :: "string \<Rightarrow> error + nat" where
  "ParseUint8 s =
     (if s = [] then Inl (NumError s ErrSyntax)
      else (case parse_digits 255 s 0 of
              Inl e \<Rightarrow> Inl (NumError s e)
            | Inr n \<Rightarrow> Inr n))"

text \<open>
  \<open>strconv.Atoi(s)\<close> for the 64-bit \<open>int\<close>: an optional sign \<open>+\<close> or \<open>-\<close>, at least one
  digit, and a value between \<open>-2^63\<close> and \<open>2^63 - 1\<close>. The result is the mathematical value
  of the Go \<open>int\<close>.
\<close>

definition Atoi :: "string \<Rightarrow> error + int" where
  "Atoi s =
     (if s = [] then Inl (NumError s ErrSyntax)
      else
        let neg = (hd s = CHR ''-'');
            ds = (if hd s = CHR ''-'' \<or> hd s = CHR ''+'' then tl s else s)
        in if ds = [] then Inl (NumError s ErrSyntax)
           else (case parse_digits (2 ^ 64 - 1) ds 0 of
                   Inl e \<Rightarrow> Inl (NumError s e)
                 | Inr un \<Rightarrow>
                     if \<not> neg \<and> 2 ^ 63 \<le> un then Inl (NumError s ErrRange)
                     else if neg \<and> 2 ^ 63 < un then Inl (NumError s ErrRange)
                     else Inr (if neg then - int un else int un)))"

section \<open>The range resolver: \<open>splitHyphen\<close> and \<open>minMaxXY\<close>\<close>

text \<open>
  Both functions are the same in the two variants of the program. The indexing \<open>xs[0]\<close>,
  \<open>xs[1]\<close>, \<open>fs[0]\<close>, \<open>fs[1]\<close> is modelled with its panic.
\<close>

definition splitHyphen :: "string \<Rightarrow> failure + (int \<times> int)" where
  "splitHyphen s =
     (if Contains s CHR ''-'' then
        let xs = Split s CHR ''-'' in
        (case at xs 0 of Inl p \<Rightarrow> Inl (Panic p) | Inr s0 \<Rightarrow>
         (case Atoi s0 of Inl e \<Rightarrow> Inl (Error e) | Inr a \<Rightarrow>
          (case at xs 1 of Inl p \<Rightarrow> Inl (Panic p) | Inr s1 \<Rightarrow>
           (case Atoi s1 of Inl e \<Rightarrow> Inl (Error e) | Inr b \<Rightarrow> Inr (a, b)))))
      else
        (case Atoi s of Inl e \<Rightarrow> Inl (Error e) | Inr a \<Rightarrow> Inr (a, a)))"

text \<open>The result is \<open>(x, y, x2, y2)\<close>, in the order of the Go function's results.\<close>

definition minMaxXY :: "string \<Rightarrow> failure + (int \<times> int \<times> int \<times> int)" where
  "minMaxXY s =
     (if \<not> Contains s CHR '','' then Inl (Error NeedComma)
      else
        let fs = Split s CHR '','' in
        (case at fs 0 of Inl p \<Rightarrow> Inl (Panic p) | Inr f0 \<Rightarrow>
         (case splitHyphen f0 of Inl f \<Rightarrow> Inl f | Inr (x, x2) \<Rightarrow>
          (case at fs 1 of Inl p \<Rightarrow> Inl (Panic p) | Inr f1 \<Rightarrow>
           (case splitHyphen f1 of Inl f \<Rightarrow> Inl f | Inr (y, y2) \<Rightarrow>
              Inr (x, y, x2, y2))))))"

section \<open>The grid-cell mapper\<close>

text \<open>
  The parameter struct, with the fields \<open>Main\<close> fills in; the field names carry the suffix
  \<open>_rp\<close>.
\<close>

record rectangleParam =
  x_rp :: int
  y_rp :: int
  column_rp :: int
  row_rp :: int
  width_rp :: int
  height_rp :: int
  pad_rp :: int

record PixelRect =
  minX :: int
  minY :: int
  maxX :: int
  maxY :: int

text \<open>Go's integer division \<open>/\<close> truncates towards zero; HOL's \<open>div\<close> rounds down.\<close>

definition quot :: "int \<Rightarrow> int \<Rightarrow> int" where
  "quot a b = sgn a * sgn b * (\<bar>a\<bar> div \<bar>b\<bar>)"

text \<open>
  Modelled from the spec: the function \<open>rectangle\<close>, which \<open>Main\<close> calls and whose body is
  not among the sources. Section 4.1 of the specification gives its algorithm: the cell
  size is \<open>canvasWidth/columns\<close> by \<open>canvasHeight/rows\<close> in truncating integer division, and
  the rectangle of the cell \<open>(col, row)\<close> is the cell shrunk by the pad on every side;
  a division by zero is fatal and not handled (in Go, a runtime panic). The specification
  states the arithmetic over the integers, and so does this definition.
\<close>

definition rectangle :: "rectangleParam \<Rightarrow> panic + PixelRect" where
  "rectangle p =
     (if column_rp p = 0 \<or> row_rp p = 0 then Inl DivideByZero
      else
        let cellW = quot (width_rp p) (column_rp p);
            cellH = quot (height_rp p) (row_rp p)
        in Inr \<lparr>minX = x_rp p * cellW + pad_rp p,
                 minY = y_rp p * cellH + pad_rp p,
                 maxX = (x_rp p + 1) * cellW - pad_rp p,
                 maxY = (y_rp p + 1) * cellH - pad_rp p\<rparr>)"

section \<open>The program: \<open>Main\<close>\<close>

datatype RGBA = RGBA "8 word" "8 word" "8 word" "8 word"

text \<open>
  The color table \<open>colors\<close> is a map that is not among the sources; it is a parameter. Indexing
  a Go map with a key it does not hold gives the zero value.
\<close>

definition lookup :: "(string \<rightharpoonup> RGBA) \<Rightarrow> string \<Rightarrow> RGBA" where
  "lookup colors k = (case colors k of None \<Rightarrow> RGBA 0 0 0 0 | Some c \<Rightarrow> c)"

text \<open>
  The options as \<open>docopt\<close> binds them. The line width is a \<open>float64\<close> that \<open>Main\<close> only hands
  on to the renderer, so its type is left open.
\<close>

record 'f Config =
  Width :: int
  Height :: int
  Column :: int
  Row :: int
  Pad :: int
  BackgroundColor :: string
  StrokeColor :: string
  FillColor :: string
  LineWidth :: 'f
  OutFile :: string
  Args :: "string list"

text \<open>The parameter of the renderer \<open>draw\<close>; the field names carry the suffix \<open>_dp\<close>.\<close>

record 'f drawParam =
  min_dp :: PixelRect
  max_dp :: PixelRect
  strokeColor_dp :: RGBA
  fillColor_dp :: RGBA
  lineWidth_dp :: 'f

text \<open>
  What \<open>Main\<close> does to the outside, in order: creating the output file, allocating the
  image, and the calls of \<open>drawBackground\<close>, \<open>draw\<close> (both not among the sources) and
  \<open>png.Encode\<close>. The image \<open>dest\<close> is the history of what was drawn on it.
\<close>

datatype 'f effect =
    Create string
  | NewRGBA int int
  | DrawBackground RGBA
  | Draw "'f drawParam"
  | Encode

text \<open>How a run ends: \<open>Main\<close> returns an exit code, or the process dies of a runtime panic.\<close>

datatype outcome = Exit nat | Crash panic

abbreviation (input) exitCodeOK :: nat where "exitCodeOK \<equiv> 0"
abbreviation (input) exitCodeArgsError :: nat where "exitCodeArgsError \<equiv> 1"
abbreviation (input) exitCodeOpenFileError :: nat where "exitCodeOpenFileError \<equiv> 2"
abbreviation (input) exitCodeRectangleError :: nat where "exitCodeRectangleError \<equiv> 3"
abbreviation (input) exitCodeImageEncodeError :: nat where "exitCodeImageEncodeError \<equiv> 4"
abbreviation (input) exitCodeColorError :: nat where "exitCodeColorError \<equiv> 5"

text \<open>
  The collaborators of \<open>Main\<close>: the color table, and the results of the library calls whose
  outcome the program does not decide: whether \<open>docopt.ParseArgs\<close> accepts the command line
  (and the options it binds), whether \<open>os.Create\<close> opens the file, whether the runtime
  can allocate a byte slice of a given length, whether \<open>png.Encode\<close> succeeds.
\<close>

record 'f world =
  colors_of :: "string \<rightharpoonup> RGBA"
  docopt_ParseArgs :: "string list \<Rightarrow> 'f Config option"
  os_Create :: "string \<Rightarrow> bool"
  runtime_make :: "nat \<Rightarrow> bool"
  png_Encode :: "'f effect list \<Rightarrow> bool"

text \<open>
  The image \<open>image.NewRGBA(image.Rect(0, 0, W, H))\<close>. \<open>image.Rect\<close> swaps a negative
  \<open>W\<close> or \<open>H\<close> with the origin, so that the corner \<open>Bounds().Max\<close> is never negative;
  the extent \<open>Dx\<close> or \<open>Dy\<close> is the difference of the two corners in the 64-bit \<open>int\<close>.
\<close>

definition Bounds_Max :: "int \<Rightarrow> int" where
  "Bounds_Max W = (if 0 > W then 0 else W)"

definition Bounds_Min :: "int \<Rightarrow> int" where
  "Bounds_Min W = (if 0 > W then W else 0)"

definition wrap64 :: "int \<Rightarrow> int" where
  "wrap64 k = (k + 2 ^ 63) mod 2 ^ 64 - 2 ^ 63"

definition Rect_size :: "int \<Rightarrow> int" where
  "Rect_size W = wrap64 (Bounds_Max W - Bounds_Min W)"

text \<open>
  \<open>mul3NonNeg\<close> of the package \<open>image\<close>: the product of three numbers, or \<open>-1\<close> when one
  of them is negative or a step of the computation overflows (the two multiplications
  are checked against 64 bits unsigned, the result against the \<open>int\<close>).
\<close>

definition mul3NonNeg :: "int \<Rightarrow> int \<Rightarrow> int \<Rightarrow> int" where
  "mul3NonNeg x y z =
     (if x < 0 \<or> y < 0 \<or> z < 0 then - 1
      else if 2 ^ 64 \<le> x * y then - 1
      else if 2 ^ 64 \<le> x * y * z then - 1
      else if 2 ^ 63 \<le> x * y * z then - 1
      else x * y * z)"

text \<open>
  \<open>image.NewRGBA\<close> panics when the length \<open>4 * Dx * Dy\<close> of the pixel buffer is not an
  \<open>int\<close>; otherwise it allocates the buffer with \<open>make\<close>, and the process dies when the
  runtime cannot serve that. \<open>None\<close> says that the image is returned.
\<close>

definition image_NewRGBA :: "'f world \<Rightarrow> int \<Rightarrow> int \<Rightarrow> panic option" where
  "image_NewRGBA w W H =
     (let n = mul3NonNeg 4 (Rect_size W) (Rect_size H)
      in if n < 0 then Some HugeDimensions
         else if \<not> runtime_make w (nat n) then Some OutOfMemory
         else None)"

text \<open>
  Lines 139 to 173 of \<open>main.go\<close> (the variant with literal colors): the fill color and the
  coordinate part of one argument.
\<close>

definition arg_color :: "(string \<rightharpoonup> RGBA) \<Rightarrow> 'f Config \<Rightarrow> string \<Rightarrow> outcome + (RGBA \<times> string)" where
  "arg_color colors config arg =
     (if Contains arg CHR '':'' then
        let f = Split arg CHR '':'' in
        (case at f 0 of Inl p \<Rightarrow> Inl (Crash p) | Inr f0 \<Rightarrow>
         (case colors f0 of
            Some c \<Rightarrow>
              (case at f 1 of Inl p \<Rightarrow> Inl (Crash p) | Inr xy \<Rightarrow> Inr (c, xy))
          | None \<Rightarrow>
              let cols = Split f0 CHR '','' in
              (case at cols 0 of Inl p \<Rightarrow> Inl (Crash p) | Inr r \<Rightarrow>
               (case at cols 1 of Inl p \<Rightarrow> Inl (Crash p) | Inr g \<Rightarrow>
                (case at cols 2 of Inl p \<Rightarrow> Inl (Crash p) | Inr b \<Rightarrow>
                 (case ParseUint8 r of Inl e \<Rightarrow> Inl (Exit exitCodeColorError) | Inr rr \<Rightarrow>
                  (case ParseUint8 g of Inl e \<Rightarrow> Inl (Exit exitCodeColorError) | Inr gg \<Rightarrow>
                   (case ParseUint8 b of Inl e \<Rightarrow> Inl (Exit exitCodeColorError) | Inr bb \<Rightarrow>
                    (case at f 1 of Inl p \<Rightarrow> Inl (Crash p) | Inr xy \<Rightarrow>
                       Inr (RGBA (of_nat rr) (of_nat gg) (of_nat bb) 255, xy))))))))))
      else Inr (lookup colors (FillColor config), arg))"

text \<open>Lines 100 to 109 of the other variant: an unknown color name is looked up all the same.\<close>

definition arg_color_base :: "(string \<rightharpoonup> RGBA) \<Rightarrow> 'f Config \<Rightarrow> string \<Rightarrow> outcome + (RGBA \<times> string)" where
  "arg_color_base colors config arg =
     (if Contains arg CHR '':'' then
        let f = Split arg CHR '':'' in
        (case at f 0 of Inl p \<Rightarrow> Inl (Crash p) | Inr f0 \<Rightarrow>
         (case at f 1 of Inl p \<Rightarrow> Inl (Crash p) | Inr xy \<Rightarrow>
            Inr (lookup colors f0, xy)))
      else Inr (lookup colors (FillColor config), arg))"

text \<open>
  The rest of the loop body, the same in both variants: parse the coordinates, map the
  start cell and the end cell, and build the parameter of \<open>draw\<close>.
\<close>

definition arg_draw ::
  "(string \<rightharpoonup> RGBA) \<Rightarrow> 'f Config \<Rightarrow> int \<Rightarrow> int \<Rightarrow> RGBA \<times> string \<Rightarrow> outcome + 'f drawParam" where
  "arg_draw colors config width height cx =
     (case cx of (fillColor, xy) \<Rightarrow>
      (case minMaxXY xy of
         Inl (Error e) \<Rightarrow> Inl (Exit exitCodeRectangleError)
       | Inl (Panic p) \<Rightarrow> Inl (Crash p)
       | Inr (x, y, x2, y2) \<Rightarrow>
           let rp = \<lparr>x_rp = x, y_rp = y, column_rp = Column config, row_rp = Row config,
                     width_rp = width, height_rp = height, pad_rp = Pad config\<rparr>
           in (case rectangle rp of Inl p \<Rightarrow> Inl (Crash p) | Inr r \<Rightarrow>
               (case rectangle (rp\<lparr>x_rp := x2, y_rp := y2\<rparr>) of Inl p \<Rightarrow> Inl (Crash p) | Inr r2 \<Rightarrow>
                  Inr \<lparr>min_dp = r, max_dp = r2,
                       strokeColor_dp = lookup colors (StrokeColor config),
                       fillColor_dp = fillColor,
                       lineWidth_dp = LineWidth config\<rparr>))))"

definition loop_body ::
  "(string \<rightharpoonup> RGBA) \<Rightarrow> 'f Config \<Rightarrow> int \<Rightarrow> int \<Rightarrow> string \<Rightarrow> outcome + 'f drawParam" where
  "loop_body colors config width height arg =
     (case arg_color colors config arg of
        Inl out \<Rightarrow> Inl out
      | Inr cx \<Rightarrow> arg_draw colors config width height cx)"

definition loop_body_base ::
  "(string \<rightharpoonup> RGBA) \<Rightarrow> 'f Config \<Rightarrow> int \<Rightarrow> int \<Rightarrow> string \<Rightarrow> outcome + 'f drawParam" where
  "loop_body_base colors config width height arg =
     (case arg_color_base colors config arg of
        Inl out \<Rightarrow> Inl out
      | Inr cx \<Rightarrow> arg_draw colors config width height cx)"

text \<open>
  The loop over the arguments: each one is drawn on \<open>dest\<close> in turn; the first that fails
  ends the run with its outcome (\<open>Some\<close>), and \<open>None\<close> says the loop ran to its end.
\<close>

fun render ::
  "(string \<Rightarrow> outcome + 'f drawParam) \<Rightarrow> string list \<Rightarrow> 'f effect list
     \<Rightarrow> outcome option \<times> 'f effect list" where
  "render body [] dest = (None, dest)"
| "render body (arg # args) dest =
     (case body arg of
        Inl out \<Rightarrow> (Some out, dest)
      | Inr dp \<Rightarrow> render body args (dest @ [Draw dp]))"

text \<open>
  \<open>Main\<close> around the loop body, the same text in both variants. The width and height
  handed to the mapper are those of \<open>dest.Bounds().Max\<close>. The result is the outcome with
  the effects up to it.
\<close>

definition Main_with ::
  "((string \<rightharpoonup> RGBA) \<Rightarrow> 'f Config \<Rightarrow> int \<Rightarrow> int \<Rightarrow> string \<Rightarrow> outcome + 'f drawParam)
     \<Rightarrow> 'f world \<Rightarrow> string list \<Rightarrow> outcome \<times> 'f effect list" where
  "Main_with body w args =
     (case docopt_ParseArgs w args of
        None \<Rightarrow> (Exit exitCodeArgsError, [])
      | Some config \<Rightarrow>
          if OutFile config \<noteq> [] \<and> \<not> os_Create w (OutFile config)
          then (Exit exitCodeOpenFileError, [])
          else
            let opened = (if OutFile config = [] then [] else [Create (OutFile config)])
            in (case image_NewRGBA w (Width config) (Height config) of
                  Some p \<Rightarrow> (Crash p, opened)
                | None \<Rightarrow>
                    let dest = opened @ [NewRGBA (Width config) (Height config),
                                 DrawBackground (lookup (colors_of w) (BackgroundColor config))];
                        width = Bounds_Max (Width config);
                        height = Bounds_Max (Height config)
                    in (case render (body (colors_of w) config width height) (Args config) dest of
                          (Some out, dest') \<Rightarrow> (out, dest')
                        | (None, dest') \<Rightarrow>
                            if png_Encode w dest' then (Exit exitCodeOK, dest' @ [Encode])
                            else (Exit exitCodeImageEncodeError, dest' @ [Encode]))))"

text \<open>\<open>Main\<close> of \<open>main.go\<close>, the variant with literal colors, and \<open>Main\<close> of the other variant.\<close>

definition Main :: "'f world \<Rightarrow> string list \<Rightarrow> outcome \<times> 'f effect list" where
  "Main = Main_with loop_body"

definition Main_base :: "'f world \<Rightarrow> string list \<Rightarrow> outcome \<times> 'f effect list" where
  "Main_base = Main_with loop_body_base"

section \<open>Notions used to state the properties\<close>

text \<open>
  The numeric parts of a cell-spec string \<open>TOKEN "," TOKEN\<close> with \<open>TOKEN := INT | INT "-" INT\<close>:
  of the first two comma-separated fields, the first two hyphen-separated parts each.
\<close>

definition numeric_parts :: "string \<Rightarrow> string list" where
  "numeric_parts s =
     concat (map (\<lambda>t. take 2 (Split t CHR ''-'')) (take 2 (Split s CHR '','')))"

text \<open>The options at the defaults the usage text declares, with the given positional arguments.\<close>

definition default_config :: "string list \<Rightarrow> int Config" where
  "default_config args =
     \<lparr>Width = 200, Height = 200, Column = 4, Row = 4, Pad = 5,
      BackgroundColor = ''white'', StrokeColor = ''black'', FillColor = ''none'',
      LineWidth = 2, OutFile = [], Args = args\<rparr>"

text \<open>
  A sample color table and a sample world to run \<open>Main\<close> in: every command line is taken as
  positional arguments with the options at their defaults, creating the file and encoding
  succeed, and the runtime serves allocations of up to \<open>2^32\<close> bytes.
\<close>

definition sample_colors :: "string \<rightharpoonup> RGBA" where
  "sample_colors =
     [''white'' \<mapsto> RGBA 255 255 255 255, ''black'' \<mapsto> RGBA 0 0 0 255,
      ''none'' \<mapsto> RGBA 0 0 0 0, ''red'' \<mapsto> RGBA 255 0 0 255]"

definition sample_world :: "int world" where
  "sample_world =
     \<lparr>colors_of = sample_colors,
      docopt_ParseArgs = (\<lambda>args. Some (default_config args)),
      os_Create = (\<lambda>path. True),
      runtime_make = (\<lambda>n. n \<le> 2 ^ 32),
      png_Encode = (\<lambda>dest. True)\<rparr>"

section \<open>Splitting and indexing\<close>

lemma Split_not_Nil: "Split s c \<noteq> []"
  by (induction s) (auto split: list.splits)

lemma Split_no_sep: "c \<notin> set s \<Longrightarrow> Split s c = [s]"
  by (induction s) auto

lemma Split_append: "c \<notin> set a \<Longrightarrow> Split (a @ c # r) c = a # Split r c"
  by (induction a) auto

lemma Split_length: "c \<in> set s \<Longrightarrow> 2 \<le> length (Split s c)"
  by (induction s) (auto split: list.splits simp: Split_not_Nil)

lemma Split_two:
  assumes "c \<in> set s"
  obtains p q rest where "Split s c = p # q # rest"
proof -
  from assms have "2 \<le> length (Split s c)" by (rule Split_length)
  then show ?thesis using that
    by (cases "Split s c"; cases "tl (Split s c)") auto
qed

lemma Split_parts: "p \<in> set (Split s c) \<Longrightarrow> c \<notin> set p"
proof (induction s arbitrary: p)
  case Nil
  then show ?case by simp
next
  case (Cons x xs)
  show ?case
  proof (cases "x = c")
    case True
    with Cons show ?thesis by auto
  next
    case False
    obtain q qs where q: "Split xs c = q # qs"
      using Split_not_Nil [of xs c] by (cases "Split xs c") auto
    with False Cons.prems have "p = x # q \<or> p \<in> set qs" by auto
    then show ?thesis
    proof
      assume "p = x # q"
      moreover have "c \<notin> set q" using Cons.IH [of q] q by simp
      ultimately show ?thesis using False by auto
    next
      assume "p \<in> set qs"
      then show ?thesis using Cons.IH [of p] q by simp
    qed
  qed
qed

section \<open>The range resolver: properties\<close>

lemma Atoi_nonneg: "Atoi s = Inr v \<Longrightarrow> CHR ''-'' \<notin> set s \<Longrightarrow> 0 \<le> v"
proof -
  assume a: "Atoi s = Inr v" and h: "CHR ''-'' \<notin> set s"
  from a have ne: "s \<noteq> []" by (auto simp: Atoi_def)
  then have "hd s \<in> set s" by simp
  with h have "hd s \<noteq> CHR ''-''" by auto
  with a ne show ?thesis
    by (auto simp: Atoi_def Let_def split: if_splits sum.splits)
qed

lemma splitHyphen_plain:
  "CHR ''-'' \<notin> set s \<Longrightarrow>
     splitHyphen s = (case Atoi s of Inl e \<Rightarrow> Inl (Error e) | Inr a \<Rightarrow> Inr (a, a))"
  by (simp add: splitHyphen_def Contains_def)

lemma splitHyphen_parts:
  assumes "Split s CHR ''-'' = p # q # rest"
  shows "splitHyphen s =
     (case Atoi p of Inl e \<Rightarrow> Inl (Error e) | Inr a \<Rightarrow>
        (case Atoi q of Inl e \<Rightarrow> Inl (Error e) | Inr b \<Rightarrow> Inr (a, b)))"
proof -
  have "CHR ''-'' \<in> set s"
    using assms Split_no_sep [of "CHR ''-''" s] by auto
  with assms show ?thesis
    by (cases "Atoi p") (simp_all add: splitHyphen_def Contains_def at_def)
qed

lemma minMaxXY_parts:
  assumes "Split s CHR '','' = f0 # f1 # rest"
  shows "minMaxXY s =
     (case splitHyphen f0 of Inl f \<Rightarrow> Inl f | Inr (x, x2) \<Rightarrow>
        (case splitHyphen f1 of Inl f \<Rightarrow> Inl f | Inr (y, y2) \<Rightarrow> Inr (x, y, x2, y2)))"
proof -
  have "CHR '','' \<in> set s"
    using assms Split_no_sep [of "CHR '',''" s] by auto
  with assms show ?thesis
    by (cases "splitHyphen f0") (auto simp: minMaxXY_def Contains_def at_def)
qed

lemma splitHyphen_no_panic: "splitHyphen s \<noteq> Inl (Panic p)"
proof (cases "CHR ''-'' \<in> set s")
  case False
  then show ?thesis by (simp add: splitHyphen_plain split: sum.splits)
next
  case True
  then obtain a b rest where "Split s CHR ''-'' = a # b # rest" by (rule Split_two)
  then show ?thesis by (simp add: splitHyphen_parts split: sum.splits)
qed

lemma splitHyphen_Inl: "splitHyphen s = Inl f \<Longrightarrow> \<exists>e. f = Error e"
  using splitHyphen_no_panic [of s] by (cases f) auto

lemma splitHyphen_error_iff:
  "(\<exists>e. splitHyphen s = Inl (Error e)) \<longleftrightarrow>
     (\<exists>p \<in> set (take 2 (Split s CHR ''-'')). \<exists>e. Atoi p = Inl e)"
proof (cases "CHR ''-'' \<in> set s")
  case False
  then show ?thesis by (auto simp: splitHyphen_plain Split_no_sep split: sum.splits)
next
  case True
  then obtain a b rest where "Split s CHR ''-'' = a # b # rest" by (rule Split_two)
  then show ?thesis by (auto simp: splitHyphen_parts split: sum.splits)
qed

lemma minMaxXY_no_panic: "minMaxXY s \<noteq> Inl (Panic p)"
proof (cases "CHR '','' \<in> set s")
  case False
  then show ?thesis by (simp add: minMaxXY_def Contains_def)
next
  case True
  then obtain a b rest where "Split s CHR '','' = a # b # rest" by (rule Split_two)
  then show ?thesis
    using splitHyphen_no_panic [of a p] splitHyphen_no_panic [of b p]
    by (auto simp: minMaxXY_parts split: sum.splits prod.splits)
qed

lemma minMaxXY_error_iff:
  "(\<exists>e. minMaxXY s = Inl (Error e)) \<longleftrightarrow>
     (\<not> Contains s CHR '','' \<or> (\<exists>p \<in> set (numeric_parts s). \<exists>e. Atoi p = Inl e))"
proof (cases "CHR '','' \<in> set s")
  case False
  then show ?thesis by (simp add: minMaxXY_def Contains_def)
next
  case True
  then obtain a b rest where ab: "Split s CHR '','' = a # b # rest" by (rule Split_two)
  have "(\<exists>e. minMaxXY s = Inl (Error e)) \<longleftrightarrow>
          (\<exists>e. splitHyphen a = Inl (Error e)) \<or> (\<exists>e. splitHyphen b = Inl (Error e))"
    by (auto simp: minMaxXY_parts [OF ab] split: sum.splits prod.splits
          dest: splitHyphen_Inl)
  then show ?thesis using True ab
    by (simp add: splitHyphen_error_iff numeric_parts_def Contains_def bex_Un)
qed

lemma at_Cons_0: "at (x # xs) 0 = Inr x"
  by (simp add: at_def)

lemma at_Cons_1: "at (x # y # ys) 1 = Inr y"
  by (simp add: at_def)

lemmas eval_defs = Atoi_def ParseUint8_def is_digit_def digit_val_def Contains_def at_def

text \<open>
  Claim C5. A token without a hyphen that \<open>Atoi\<close> accepts parses to \<open>start = end =\<close> its
  value; a token \<open>INT "-" INT\<close> whose two parts have no hyphen and are accepted by \<open>Atoi\<close>
  parses to the two values in order. \<open>INT\<close> is the integer literal of the token grammar,
  which has no hyphen of its own (a token that starts with a hyphen is the matter of C10).
\<close>

theorem splitHyphen_scalar_range:
  "(CHR ''-'' \<notin> set s \<and> Atoi s = Inr v \<longrightarrow> splitHyphen s = Inr (v, v)) \<and>
   (CHR ''-'' \<notin> set s1 \<and> CHR ''-'' \<notin> set s2 \<and> Atoi s1 = Inr a \<and> Atoi s2 = Inr b
      \<longrightarrow> splitHyphen (s1 @ ''-'' @ s2) = Inr (a, b))"
proof (intro conjI impI)
  assume "CHR ''-'' \<notin> set s \<and> Atoi s = Inr v"
  then show "splitHyphen s = Inr (v, v)" by (simp add: splitHyphen_plain)
next
  assume h: "CHR ''-'' \<notin> set s1 \<and> CHR ''-'' \<notin> set s2 \<and> Atoi s1 = Inr a \<and> Atoi s2 = Inr b"
  then have "Split (s1 @ ''-'' @ s2) CHR ''-'' = s1 # s2 # []"
    by (simp add: Split_append Split_no_sep)
  then show "splitHyphen (s1 @ ''-'' @ s2) = Inr (a, b)"
    using h by (simp add: splitHyphen_parts)
qed

text \<open>The tokens \<open>3\<close> and \<open>1-4\<close>.\<close>

theorem splitHyphen_scalar_range_witness:
  "CHR ''-'' \<notin> set ''3'' \<and> Atoi ''3'' = Inr 3 \<and> splitHyphen ''3'' = Inr (3, 3) \<and>
   CHR ''-'' \<notin> set ''1'' \<and> CHR ''-'' \<notin> set ''4'' \<and> Atoi ''1'' = Inr 1 \<and> Atoi ''4'' = Inr 4 \<and>
   splitHyphen ''1-4'' = Inr (1, 4)"
proof -
  have h1: "CHR ''-'' \<notin> set ''3'' \<and> Atoi ''3'' = Inr 3"
    by (simp add: eval_defs)
  have h2: "CHR ''-'' \<notin> set ''1'' \<and> CHR ''-'' \<notin> set ''4'' \<and> Atoi ''1'' = Inr 1 \<and> Atoi ''4'' = Inr 4"
    by (simp add: eval_defs)
  from splitHyphen_scalar_range [of "''3''" 3 "''1''" "''4''" 1 4] h1 h2
  show ?thesis by simp
qed

text \<open>
  Claim C1 says that a token \<open>INT "-" INT "-" INT\<close> is a parse error. \<open>splitHyphen\<close> never
  looks at the number of parts: it reads \<open>xs[0]\<close> and \<open>xs[1]\<close> and returns, so \<open>1-4-7\<close>
  parses to \<open>(1, 4)\<close>.
\<close>

theorem splitHyphen_third_part_counterexample:
  "splitHyphen ''1-4-7'' = Inr (1, 4)"
  by (simp add: splitHyphen_def eval_defs)

text \<open>
  Claim C1, amended. For a token \<open>INT "-" INT "-" REST\<close> whose first two parts have no hyphen
  and are accepted by \<open>Atoi\<close>, parsing succeeds with the first two values as start and end;
  whatever follows the second hyphen is ignored, an integer or not.
\<close>

theorem splitHyphen_third_part_ignored:
  "CHR ''-'' \<notin> set s1 \<and> CHR ''-'' \<notin> set s2 \<and> Atoi s1 = Inr a \<and> Atoi s2 = Inr b
     \<longrightarrow> splitHyphen (s1 @ ''-'' @ s2 @ ''-'' @ s3) = Inr (a, b)"
proof
  assume h: "CHR ''-'' \<notin> set s1 \<and> CHR ''-'' \<notin> set s2 \<and> Atoi s1 = Inr a \<and> Atoi s2 = Inr b"
  then have "Split (s1 @ ''-'' @ s2 @ ''-'' @ s3) CHR ''-'' = s1 # s2 # Split s3 CHR ''-''"
    by (simp add: Split_append)
  then show "splitHyphen (s1 @ ''-'' @ s2 @ ''-'' @ s3) = Inr (a, b)"
    using h by (simp add: splitHyphen_parts)
qed

text \<open>The token \<open>1-4-x\<close>.\<close>

theorem splitHyphen_third_part_ignored_witness:
  "CHR ''-'' \<notin> set ''1'' \<and> CHR ''-'' \<notin> set ''4'' \<and> Atoi ''1'' = Inr 1 \<and> Atoi ''4'' = Inr 4 \<and>
   splitHyphen ''1-4-x'' = Inr (1, 4)"
proof -
  have h: "CHR ''-'' \<notin> set ''1'' \<and> CHR ''-'' \<notin> set ''4'' \<and> Atoi ''1'' = Inr 1 \<and> Atoi ''4'' = Inr 4"
    by (simp add: eval_defs)
  from splitHyphen_third_part_ignored [of "''1''" "''4''" 1 4 "''x''"] h
  show ?thesis by simp
qed

text \<open>
  Claim C10. A token whose first character is the hyphen fails: the first part of the split
  is the empty string, which \<open>Atoi\<close> rejects as a syntax error. Hence no token parses to a
  negative start or end, and no cell-spec string to a negative coordinate.
\<close>

theorem splitHyphen_leading_hyphen:
  "splitHyphen (CHR ''-'' # r) = Inl (Error (NumError [] ErrSyntax)) \<and>
   (splitHyphen s = Inr (a, b) \<longrightarrow> 0 \<le> a \<and> 0 \<le> b) \<and>
   (minMaxXY t = Inr (x, y, x2, y2) \<longrightarrow> 0 \<le> x \<and> 0 \<le> y \<and> 0 \<le> x2 \<and> 0 \<le> y2)"
proof -
  have first: "splitHyphen (CHR ''-'' # r) = Inl (Error (NumError [] ErrSyntax))"
    by (simp add: splitHyphen_def Contains_def at_def Atoi_def)
  have sh: "0 \<le> a \<and> 0 \<le> b" if ok: "splitHyphen s = Inr (a, b)" for s a b
  proof (cases "CHR ''-'' \<in> set s")
    case False
    with ok show ?thesis
      by (auto simp: splitHyphen_plain split: sum.splits dest: Atoi_nonneg)
  next
    case True
    then obtain p q rest where pq: "Split s CHR ''-'' = p # q # rest" by (rule Split_two)
    then have "CHR ''-'' \<notin> set p" "CHR ''-'' \<notin> set q"
      using Split_parts [of p s "CHR ''-''"] Split_parts [of q s "CHR ''-''"] by simp_all
    with ok pq show ?thesis
      by (auto simp: splitHyphen_parts split: sum.splits dest: Atoi_nonneg)
  qed
  have mm: "0 \<le> x \<and> 0 \<le> y \<and> 0 \<le> x2 \<and> 0 \<le> y2" if ok: "minMaxXY t = Inr (x, y, x2, y2)"
  proof -
    from ok have "CHR '','' \<in> set t" by (auto simp: minMaxXY_def Contains_def split: if_splits)
    then obtain f0 f1 rest where "Split t CHR '','' = f0 # f1 # rest" by (rule Split_two)
    with ok have "splitHyphen f0 = Inr (x, x2)" "splitHyphen f1 = Inr (y, y2)"
      by (auto simp: minMaxXY_parts split: sum.splits prod.splits)
    then show ?thesis using sh by blast
  qed
  from first sh mm show ?thesis by blast
qed

text \<open>The tokens \<open>-3\<close> and \<open>3-4\<close>, and the cell-spec \<open>1-2,0\<close>.\<close>

theorem splitHyphen_leading_hyphen_witness:
  "splitHyphen ''-3'' = Inl (Error (NumError [] ErrSyntax)) \<and>
   splitHyphen ''3-4'' = Inr (3, 4) \<and> (0::int) \<le> 3 \<and> (0::int) \<le> 4 \<and>
   minMaxXY ''1-2,0'' = Inr (1, 0, 2, 0)"
proof -
  have h1: "splitHyphen ''3-4'' = Inr (3, 4)"
    by (simp add: splitHyphen_def eval_defs)
  have h2: "minMaxXY ''1-2,0'' = Inr (1, 0, 2, 0)"
    by (simp add: minMaxXY_def splitHyphen_def eval_defs)
  from splitHyphen_leading_hyphen [of "''3''" "''3-4''" 3 4 "''1-2,0''" 1 0 2 0] h1 h2
  show ?thesis by simp
qed

text \<open>
  Claim C7. \<open>minMaxXY\<close> fails with the error of \<open>errors.New\<close> on every string without a
  comma, and with an error on every string one of whose numeric parts \<open>Atoi\<close> rejects; it
  returns no coordinates then. These are the only strings it fails on.
\<close>

theorem minMaxXY_fails:
  "(\<not> Contains s CHR '','' \<longrightarrow> minMaxXY s = Inl (Error NeedComma)) \<and>
   ((\<exists>p \<in> set (numeric_parts s). \<exists>e. Atoi p = Inl e) \<longrightarrow> (\<exists>e. minMaxXY s = Inl (Error e))) \<and>
   ((\<exists>e. minMaxXY s = Inl (Error e)) \<longrightarrow>
      \<not> Contains s CHR '','' \<or> (\<exists>p \<in> set (numeric_parts s). \<exists>e. Atoi p = Inl e))"
  using minMaxXY_error_iff [of s] by (auto simp: minMaxXY_def)

text \<open>The strings \<open>12\<close> (no comma) and \<open>1-x,0\<close> (the part \<open>x\<close> is no integer).\<close>

theorem minMaxXY_fails_witness:
  "\<not> Contains ''12'' CHR '','' \<and> minMaxXY ''12'' = Inl (Error NeedComma) \<and>
   ''x'' \<in> set (numeric_parts ''1-x,0'') \<and> Atoi ''x'' = Inl (NumError ''x'' ErrSyntax) \<and>
   minMaxXY ''1-x,0'' = Inl (Error (NumError ''x'' ErrSyntax))"
proof -
  have h1: "\<not> Contains ''12'' CHR '',''" by (simp add: Contains_def)
  have h2: "''x'' \<in> set (numeric_parts ''1-x,0'')" by (simp add: numeric_parts_def)
  have h3: "Atoi ''x'' = Inl (NumError ''x'' ErrSyntax)" by (simp add: eval_defs)
  have "\<exists>e. minMaxXY ''1-x,0'' = Inl (Error e)"
    using minMaxXY_fails [of "''1-x,0''"] h2 h3 by blast
  then have c2: "minMaxXY ''1-x,0'' = Inl (Error (NumError ''x'' ErrSyntax))"
    by (simp add: minMaxXY_def splitHyphen_def eval_defs)
  from minMaxXY_fails [of "''12''"] h1 h2 h3 c2 show ?thesis by simp
qed

section \<open>The grid-cell mapper: properties\<close>

lemma quot_nonneg: "0 \<le> a \<Longrightarrow> 0 < b \<Longrightarrow> quot a b = a div b"
  by (cases "a = 0") (simp_all add: quot_def)

lemma rectangle_ok:
  "column_rp p \<noteq> 0 \<Longrightarrow> row_rp p \<noteq> 0 \<Longrightarrow>
     rectangle p =
       Inr \<lparr>minX = x_rp p * quot (width_rp p) (column_rp p) + pad_rp p,
            minY = y_rp p * quot (height_rp p) (row_rp p) + pad_rp p,
            maxX = (x_rp p + 1) * quot (width_rp p) (column_rp p) - pad_rp p,
            maxY = (y_rp p + 1) * quot (height_rp p) (row_rp p) - pad_rp p\<rparr>"
  by (simp add: rectangle_def Let_def)

lemma rectangle_Inr: "rectangle p = Inr r \<Longrightarrow> column_rp p \<noteq> 0 \<and> row_rp p \<noteq> 0"
  by (auto simp: rectangle_def split: if_splits)

text \<open>
  Claim C2. With positive column and row counts the mapper returns the rectangle
  \<open>minX = col * (canvasWidth / columns) + pad\<close>, \<open>minY = row * (canvasHeight / rows) + pad\<close>,
  \<open>maxX = (col + 1) * (canvasWidth / columns) - pad\<close>,
  \<open>maxY = (row + 1) * (canvasHeight / rows) - pad\<close>, the division truncating. The width of
  a mapped rectangle is \<open>canvasWidth / columns - 2 * pad\<close> whatever the row, and its height
  \<open>canvasHeight / rows - 2 * pad\<close> whatever the column. The spec \<open>0,0\<close> parses to the cell
  \<open>(0, 0)\<close>, which a 200 by 200 canvas with a 4 by 4 grid and pad 5 maps to
  \<open>(5,5)-(45,45)\<close>.
\<close>

theorem rectangle_formula:
  "(0 < column_rp p \<and> 0 < row_rp p \<longrightarrow>
      rectangle p =
        Inr \<lparr>minX = x_rp p * quot (width_rp p) (column_rp p) + pad_rp p,
             minY = y_rp p * quot (height_rp p) (row_rp p) + pad_rp p,
             maxX = (x_rp p + 1) * quot (width_rp p) (column_rp p) - pad_rp p,
             maxY = (y_rp p + 1) * quot (height_rp p) (row_rp p) - pad_rp p\<rparr>) \<and>
   (rectangle p = Inr r \<longrightarrow>
      maxX r - minX r = quot (width_rp p) (column_rp p) - 2 * pad_rp p \<and>
      maxY r - minY r = quot (height_rp p) (row_rp p) - 2 * pad_rp p) \<and>
   (rectangle p = Inr r \<and> rectangle (p\<lparr>y_rp := y'\<rparr>) = Inr ry \<longrightarrow>
      maxX ry - minX ry = maxX r - minX r) \<and>
   (rectangle p = Inr r \<and> rectangle (p\<lparr>x_rp := x'\<rparr>) = Inr rx \<longrightarrow>
      maxY rx - minY rx = maxY r - minY r) \<and>
   minMaxXY ''0,0'' = Inr (0, 0, 0, 0) \<and>
   rectangle \<lparr>x_rp = 0, y_rp = 0, column_rp = 4, row_rp = 4,
              width_rp = 200, height_rp = 200, pad_rp = 5\<rparr> =
     Inr \<lparr>minX = 5, minY = 5, maxX = 45, maxY = 45\<rparr>"
proof (intro conjI impI)
  assume "0 < column_rp p \<and> 0 < row_rp p"
  then show "rectangle p =
        Inr \<lparr>minX = x_rp p * quot (width_rp p) (column_rp p) + pad_rp p,
             minY = y_rp p * quot (height_rp p) (row_rp p) + pad_rp p,
             maxX = (x_rp p + 1) * quot (width_rp p) (column_rp p) - pad_rp p,
             maxY = (y_rp p + 1) * quot (height_rp p) (row_rp p) - pad_rp p\<rparr>"
    by (simp add: rectangle_ok)
next
  assume r: "rectangle p = Inr r"
  then have "column_rp p \<noteq> 0 \<and> row_rp p \<noteq> 0" by (rule rectangle_Inr)
  with r have r': "r = \<lparr>minX = x_rp p * quot (width_rp p) (column_rp p) + pad_rp p,
             minY = y_rp p * quot (height_rp p) (row_rp p) + pad_rp p,
             maxX = (x_rp p + 1) * quot (width_rp p) (column_rp p) - pad_rp p,
             maxY = (y_rp p + 1) * quot (height_rp p) (row_rp p) - pad_rp p\<rparr>"
    by (simp add: rectangle_ok)
  show "maxX r - minX r = quot (width_rp p) (column_rp p) - 2 * pad_rp p"
    by (simp add: r' algebra_simps)
  show "maxY r - minY r = quot (height_rp p) (row_rp p) - 2 * pad_rp p"
    by (simp add: r' algebra_simps)
next
  assume "rectangle p = Inr r \<and> rectangle (p\<lparr>y_rp := y'\<rparr>) = Inr ry"
  then show "maxX ry - minX ry = maxX r - minX r"
    by (auto simp: rectangle_def Let_def algebra_simps split: if_splits)
next
  assume "rectangle p = Inr r \<and> rectangle (p\<lparr>x_rp := x'\<rparr>) = Inr rx"
  then show "maxY rx - minY rx = maxY r - minY r"
    by (auto simp: rectangle_def Let_def algebra_simps split: if_splits)
next
  show "minMaxXY ''0,0'' = Inr (0, 0, 0, 0)"
    by (simp add: minMaxXY_def splitHyphen_def eval_defs)
next
  show "rectangle \<lparr>x_rp = 0, y_rp = 0, column_rp = 4, row_rp = 4,
              width_rp = 200, height_rp = 200, pad_rp = 5\<rparr> =
     Inr \<lparr>minX = 5, minY = 5, maxX = 45, maxY = 45\<rparr>"
    by (simp add: rectangle_def quot_def)
qed

text \<open>
  The cell \<open>(1, 2)\<close> of a 4 by 4 grid on a canvas 203 wide and 200 high, pad 5; the cell
  width \<open>203 / 4\<close> truncates to 50.
\<close>

theorem rectangle_formula_witness:
  "(0::int) < 4 \<and>
   rectangle \<lparr>x_rp = 1, y_rp = 2, column_rp = 4, row_rp = 4,
              width_rp = 203, height_rp = 200, pad_rp = 5\<rparr> =
     Inr \<lparr>minX = 55, minY = 105, maxX = 95, maxY = 145\<rparr> \<and>
   rectangle \<lparr>x_rp = 1, y_rp = 3, column_rp = 4, row_rp = 4,
              width_rp = 203, height_rp = 200, pad_rp = 5\<rparr> =
     Inr \<lparr>minX = 55, minY = 155, maxX = 95, maxY = 195\<rparr> \<and>
   rectangle \<lparr>x_rp = 0, y_rp = 2, column_rp = 4, row_rp = 4,
              width_rp = 203, height_rp = 200, pad_rp = 5\<rparr> =
     Inr \<lparr>minX = 5, minY = 105, maxX = 45, maxY = 145\<rparr> \<and>
   (95::int) - 55 = quot 203 4 - 2 * 5 \<and> (145::int) - 105 = quot 200 4 - 2 * 5"
proof -
  let ?p = "\<lparr>x_rp = 1, y_rp = 2, column_rp = 4, row_rp = 4,
              width_rp = 203, height_rp = 200, pad_rp = 5\<rparr>"
  let ?r = "\<lparr>minX = 55, minY = 105, maxX = 95, maxY = 145\<rparr>"
  have q: "quot 203 4 = 50" "quot 200 4 = 50" by (simp_all add: quot_def)
  have h1: "0 < column_rp ?p \<and> 0 < row_rp ?p" by simp
  have h2: "rectangle ?p = Inr ?r" by (simp add: rectangle_def q)
  have h3: "rectangle (?p\<lparr>y_rp := 3\<rparr>) = Inr \<lparr>minX = 55, minY = 155, maxX = 95, maxY = 195\<rparr>"
    by (simp add: rectangle_def q)
  have h4: "rectangle (?p\<lparr>x_rp := 0\<rparr>) = Inr \<lparr>minX = 5, minY = 105, maxX = 45, maxY = 145\<rparr>"
    by (simp add: rectangle_def q)
  from rectangle_formula [where p = ?p and r = ?r and y' = 3 and x' = 0
      and ry = "\<lparr>minX = 55, minY = 155, maxX = 95, maxY = 195\<rparr>"
      and rx = "\<lparr>minX = 5, minY = 105, maxX = 45, maxY = 145\<rparr>"] h1 h2 h3 h4
  show ?thesis by (simp add: q)
qed

section \<open>The loop body and the loop\<close>

lemma minMaxXY_Inl: "minMaxXY s = Inl f \<Longrightarrow> \<exists>e. f = Error e"
  using minMaxXY_no_panic [of s] by (cases f) auto

lemma arg_draw_error:
  "minMaxXY xy = Inl f \<Longrightarrow>
     arg_draw colors config width height (c, xy) = Inl (Exit exitCodeRectangleError)"
  by (auto simp: arg_draw_def dest: minMaxXY_Inl)

lemma arg_draw_ok:
  assumes "minMaxXY xy = Inr (x, y, x2, y2)" and "Column config \<noteq> 0" and "Row config \<noteq> 0"
  shows "\<exists>r r2.
     rectangle \<lparr>x_rp = x, y_rp = y, column_rp = Column config, row_rp = Row config,
                width_rp = width, height_rp = height, pad_rp = Pad config\<rparr> = Inr r \<and>
     rectangle \<lparr>x_rp = x2, y_rp = y2, column_rp = Column config, row_rp = Row config,
                width_rp = width, height_rp = height, pad_rp = Pad config\<rparr> = Inr r2 \<and>
     arg_draw colors config width height (c, xy) =
       Inr \<lparr>min_dp = r, max_dp = r2, strokeColor_dp = lookup colors (StrokeColor config),
            fillColor_dp = c, lineWidth_dp = LineWidth config\<rparr>"
  using assms by (simp add: arg_draw_def rectangle_ok)

lemma arg_draw_cases:
  assumes "Column config \<noteq> 0" and "Row config \<noteq> 0"
  shows "(\<exists>dp. arg_draw colors config width height (c, xy) = Inr dp \<and> fillColor_dp dp = c
            \<and> (\<exists>v. minMaxXY xy = Inr v)) \<or>
         (arg_draw colors config width height (c, xy) = Inl (Exit exitCodeRectangleError)
            \<and> (\<exists>f. minMaxXY xy = Inl f))"
proof (cases "minMaxXY xy")
  case (Inl f)
  then show ?thesis by (simp add: arg_draw_error)
next
  case (Inr v)
  obtain x y x2 y2 where "v = (x, y, x2, y2)" by (cases v) auto
  with Inr assms arg_draw_ok [of xy x y x2 y2 config width height colors c]
  show ?thesis by auto
qed

lemma render_no_Encode:
  "Encode \<notin> set dest \<Longrightarrow> Encode \<notin> set (snd (render body args dest))"
  by (induction args arbitrary: dest) (auto split: sum.splits)

lemma render_keeps: "set dest \<subseteq> set (snd (render body args dest))"
proof (induction args arbitrary: dest)
  case Nil
  show ?case by simp
next
  case (Cons a args)
  show ?case
  proof (cases "body a")
    case (Inl out)
    then show ?thesis by simp
  next
    case (Inr dp)
    have "set (dest @ [Draw dp]) \<subseteq> set (snd (render body args (dest @ [Draw dp])))"
      by (rule Cons.IH)
    with Inr show ?thesis by auto
  qed
qed

lemma render_None:
  "\<forall>a \<in> set args. \<exists>dp. body a = Inr dp \<Longrightarrow> fst (render body args dest) = None"
  by (induction args arbitrary: dest) auto

lemma render_Some:
  assumes "\<exists>a \<in> set args. \<exists>out. body a = Inl out"
    and "\<forall>a \<in> set args. \<forall>out. body a = Inl out \<longrightarrow> out = out0"
  shows "fst (render body args dest) = Some out0"
  using assms
proof (induction args arbitrary: dest)
  case Nil
  then show ?case by simp
next
  case (Cons a args)
  show ?case
  proof (cases "body a")
    case (Inl out)
    with Cons.prems(2) have "out = out0" by simp
    with Inl show ?thesis by simp
  next
    case (Inr dp)
    with Cons.prems have "\<exists>a \<in> set args. \<exists>out. body a = Inl out"
      and "\<forall>a \<in> set args. \<forall>out. body a = Inl out \<longrightarrow> out = out0" by auto
    then have "fst (render body args (dest @ [Draw dp])) = Some out0" by (rule Cons.IH)
    with Inr show ?thesis by simp
  qed
qed

lemma render_first_failure:
  assumes "\<forall>a \<in> set pre. \<exists>dp. body a = Inr dp" and "body arg = Inl out"
  shows "fst (render body (pre @ arg # post) dest) = Some out"
  using assms by (induction pre arbitrary: dest) auto

lemma render_draws:
  "body a = Inr dp \<Longrightarrow> a \<in> set args \<Longrightarrow> fst (render body args dest) = None \<Longrightarrow>
     Draw dp \<in> set (snd (render body args dest))"
proof (induction args arbitrary: dest)
  case Nil
  then show ?case by simp
next
  case (Cons b args)
  show ?case
  proof (cases "body b")
    case (Inl out)
    with Cons.prems show ?thesis by simp
  next
    case (Inr dq)
    show ?thesis
    proof (cases "a = b")
      case True
      with Inr Cons.prems have "dq = dp" by simp
      then have "Draw dp \<in> set (dest @ [Draw dq])" by simp
      then have "Draw dp \<in> set (snd (render body args (dest @ [Draw dq])))"
        using render_keeps [of "dest @ [Draw dq]" body args] by blast
      with Inr show ?thesis by simp
    next
      case False
      with Cons.prems Inr have "a \<in> set args" "fst (render body args (dest @ [Draw dq])) = None"
        by auto
      with Cons.prems(1) have "Draw dp \<in> set (snd (render body args (dest @ [Draw dq])))"
        by (rule Cons.IH)
      with Inr show ?thesis by simp
    qed
  qed
qed

lemma render_reaches:
  assumes "\<forall>a \<in> set pre. \<exists>dp. body a = Inr dp" and "body arg = Inr dp"
  shows "Draw dp \<in> set (snd (render body (pre @ arg # post) dest))"
  using assms(1)
proof (induction pre arbitrary: dest)
  case Nil
  have "Draw dp \<in> set (dest @ [Draw dp])" by simp
  then have "Draw dp \<in> set (snd (render body post (dest @ [Draw dp])))"
    using render_keeps [of "dest @ [Draw dp]" body post] by blast
  with assms(2) show ?case by simp
next
  case (Cons b pre)
  then obtain dq where dq: "body b = Inr dq" by auto
  from Cons.prems have "\<forall>a \<in> set pre. \<exists>dp. body a = Inr dp" by simp
  then have "Draw dp \<in> set (snd (render body (pre @ arg # post) (dest @ [Draw dq])))"
    by (rule Cons.IH)
  with dq show ?case by simp
qed

text \<open>\<open>Main\<close> once the options are parsed, the output is open and the image is allocated.\<close>

lemma Main_with_loop:
  assumes "docopt_ParseArgs w args = Some config"
    and "OutFile config = [] \<or> os_Create w (OutFile config)"
    and "image_NewRGBA w (Width config) (Height config) = None"
  shows "\<exists>dest. Encode \<notin> set dest \<and>
     Main_with body w args =
       (case render (body (colors_of w) config (Bounds_Max (Width config))
                 (Bounds_Max (Height config))) (Args config) dest of
          (Some out, dest') \<Rightarrow> (out, dest')
        | (None, dest') \<Rightarrow>
            if png_Encode w dest' then (Exit exitCodeOK, dest' @ [Encode])
            else (Exit exitCodeImageEncodeError, dest' @ [Encode]))"
proof -
  let ?opened = "if OutFile config = [] then [] else [Create (OutFile config)]"
  let ?dest = "?opened @ [NewRGBA (Width config) (Height config),
                 DrawBackground (lookup (colors_of w) (BackgroundColor config))]"
  have "Encode \<notin> set ?dest" by simp
  moreover have "Main_with body w args =
       (case render (body (colors_of w) config (Bounds_Max (Width config))
                 (Bounds_Max (Height config))) (Args config) ?dest of
          (Some out, dest') \<Rightarrow> (out, dest')
        | (None, dest') \<Rightarrow>
            if png_Encode w dest' then (Exit exitCodeOK, dest' @ [Encode])
            else (Exit exitCodeImageEncodeError, dest' @ [Encode]))"
    using assms by (auto simp: Main_with_def Let_def)
  ultimately show ?thesis by blast
qed

lemma Main_with_stops:
  assumes "docopt_ParseArgs w args = Some config"
    and "OutFile config = [] \<or> os_Create w (OutFile config)"
    and "image_NewRGBA w (Width config) (Height config) = None"
    and "\<And>dest. fst (render (body (colors_of w) config (Bounds_Max (Width config))
             (Bounds_Max (Height config))) (Args config) dest) = Some out"
  shows "fst (Main_with body w args) = out \<and> Encode \<notin> set (snd (Main_with body w args))"
proof -
  let ?b = "body (colors_of w) config (Bounds_Max (Width config)) (Bounds_Max (Height config))"
  from Main_with_loop [OF assms(1,2,3), of body] obtain dest where
    d: "Encode \<notin> set dest" and
    m: "Main_with body w args =
       (case render ?b (Args config) dest of
          (Some out, dest') \<Rightarrow> (out, dest')
        | (None, dest') \<Rightarrow>
            if png_Encode w dest' then (Exit exitCodeOK, dest' @ [Encode])
            else (Exit exitCodeImageEncodeError, dest' @ [Encode]))"
    by blast
  let ?r = "render ?b (Args config) dest"
  have "fst ?r = Some out" by (rule assms(4))
  moreover have "Encode \<notin> set (snd ?r)" using d by (rule render_no_Encode)
  ultimately show ?thesis using m by (cases ?r) auto
qed

lemma Main_with_completes:
  assumes "docopt_ParseArgs w args = Some config"
    and "OutFile config = [] \<or> os_Create w (OutFile config)"
    and "image_NewRGBA w (Width config) (Height config) = None"
    and "\<And>dest. fst (render (body (colors_of w) config (Bounds_Max (Width config))
             (Bounds_Max (Height config))) (Args config) dest) = None"
  shows "\<exists>dest. Encode \<notin> set dest \<and> snd (Main_with body w args) = dest @ [Encode] \<and>
     fst (Main_with body w args) =
       (if png_Encode w dest then Exit exitCodeOK else Exit exitCodeImageEncodeError)"
proof -
  let ?b = "body (colors_of w) config (Bounds_Max (Width config)) (Bounds_Max (Height config))"
  from Main_with_loop [OF assms(1,2,3), of body] obtain dest where
    d: "Encode \<notin> set dest" and
    m: "Main_with body w args =
       (case render ?b (Args config) dest of
          (Some out, dest') \<Rightarrow> (out, dest')
        | (None, dest') \<Rightarrow>
            if png_Encode w dest' then (Exit exitCodeOK, dest' @ [Encode])
            else (Exit exitCodeImageEncodeError, dest' @ [Encode]))"
    by blast
  let ?r = "render ?b (Args config) dest"
  have n: "fst ?r = None" by (rule assms(4))
  have e: "Encode \<notin> set (snd ?r)" using d by (rule render_no_Encode)
  from n m have "snd (Main_with body w args) = snd ?r @ [Encode] \<and>
     fst (Main_with body w args) =
       (if png_Encode w (snd ?r) then Exit exitCodeOK else Exit exitCodeImageEncodeError)"
    by (cases ?r) auto
  with e show ?thesis by blast
qed

lemma Main_with_effects:
  assumes "docopt_ParseArgs w args = Some config"
    and "OutFile config = [] \<or> os_Create w (OutFile config)"
    and "image_NewRGBA w (Width config) (Height config) = None"
    and "\<And>dest. e \<in> set (snd (render (body (colors_of w) config (Bounds_Max (Width config))
             (Bounds_Max (Height config))) (Args config) dest))"
  shows "e \<in> set (snd (Main_with body w args))"
proof -
  let ?b = "body (colors_of w) config (Bounds_Max (Width config)) (Bounds_Max (Height config))"
  from Main_with_loop [OF assms(1,2,3), of body] obtain dest where
    m: "Main_with body w args =
       (case render ?b (Args config) dest of
          (Some out, dest') \<Rightarrow> (out, dest')
        | (None, dest') \<Rightarrow>
            if png_Encode w dest' then (Exit exitCodeOK, dest' @ [Encode])
            else (Exit exitCodeImageEncodeError, dest' @ [Encode]))"
    by blast
  let ?r = "render ?b (Args config) dest"
  have "e \<in> set (snd ?r)" by (rule assms(4))
  with m show ?thesis by (cases ?r; cases "fst ?r") auto
qed

lemma image_NewRGBA_sample:
  "image_NewRGBA sample_world (Width (default_config args)) (Height (default_config args)) = None"
  by (simp add: image_NewRGBA_def mul3NonNeg_def Rect_size_def wrap64_def Bounds_Max_def
      Bounds_Min_def sample_world_def default_config_def)

lemma image_NewRGBA_huge: "image_NewRGBA w 9223372036854775807 2 = Some HugeDimensions"
  by (simp add: image_NewRGBA_def mul3NonNeg_def Rect_size_def wrap64_def Bounds_Max_def
      Bounds_Min_def)

section \<open>The program: properties\<close>

lemma loop_body_no_colon:
  "CHR '':'' \<notin> set arg \<Longrightarrow>
     loop_body colors config width height arg =
       arg_draw colors config width height (lookup colors (FillColor config), arg)"
  by (simp add: loop_body_def arg_color_def Contains_def)

lemma sample_run:
  "docopt_ParseArgs sample_world args = Some (default_config args)"
  "OutFile (default_config args) = [] \<or> os_Create sample_world (OutFile (default_config args))"
  "colors_of sample_world = sample_colors"
  "Args (default_config args) = args"
  "Bounds_Max (Width (default_config args)) = 200"
  "Bounds_Max (Height (default_config args)) = 200"
  "Column (default_config args) = 4" "Row (default_config args) = 4"
  "Pad (default_config args) = 5"
  by (simp_all add: sample_world_def default_config_def Bounds_Max_def)

lemma quot_200_4: "quot 200 4 = 50"
  by (simp add: quot_def)

text \<open>
  Claim C3. When the loop of \<open>Main\<close> reaches an argument whose color prefix resolves and
  whose coordinate part parses to \<open>(x, y, x2, y2)\<close> (the column and row counts not zero, or
  the mapper would panic), \<open>draw\<close> is called with a parameter whose \<open>min\<close> is the mapped
  rectangle of the start cell \<open>(x, y)\<close> and whose \<open>max\<close> is the mapped rectangle of the end
  cell \<open>(x2, y2)\<close>, each as the mapper returned it: no minimum or maximum is taken,
  whatever the order of start and end. The run on \<open>1-2,0\<close> with the default options calls
  \<open>draw\<close> once, with the rectangle of the cell \<open>(1, 0)\<close>, whose top-left corner is
  \<open>(55, 5)\<close>, and the rectangle of the cell \<open>(2, 0)\<close>, whose bottom-right corner is
  \<open>(145, 45)\<close>.
\<close>

theorem Main_draw_positional:
  assumes "arg_color (colors_of w) config arg = Inr (fill, xy)"
    and "minMaxXY xy = Inr (x, y, x2, y2)"
    and "Column config \<noteq> 0" and "Row config \<noteq> 0"
  shows "(\<exists>r r2.
      rectangle \<lparr>x_rp = x, y_rp = y, column_rp = Column config, row_rp = Row config,
                 width_rp = Bounds_Max (Width config), height_rp = Bounds_Max (Height config),
                 pad_rp = Pad config\<rparr> = Inr r \<and>
      rectangle \<lparr>x_rp = x2, y_rp = y2, column_rp = Column config, row_rp = Row config,
                 width_rp = Bounds_Max (Width config), height_rp = Bounds_Max (Height config),
                 pad_rp = Pad config\<rparr> = Inr r2 \<and>
      loop_body (colors_of w) config (Bounds_Max (Width config)) (Bounds_Max (Height config)) arg
        = Inr \<lparr>min_dp = r, max_dp = r2,
               strokeColor_dp = lookup (colors_of w) (StrokeColor config),
               fillColor_dp = fill, lineWidth_dp = LineWidth config\<rparr> \<and>
      (docopt_ParseArgs w args = Some config \<and>
       (OutFile config = [] \<or> os_Create w (OutFile config)) \<and>
       image_NewRGBA w (Width config) (Height config) = None \<and>
       Args config = pre @ arg # post \<and>
       (\<forall>a \<in> set pre. \<exists>dp. loop_body (colors_of w) config (Bounds_Max (Width config))
                                 (Bounds_Max (Height config)) a = Inr dp)
       \<longrightarrow> Draw \<lparr>min_dp = r, max_dp = r2,
                  strokeColor_dp = lookup (colors_of w) (StrokeColor config),
                  fillColor_dp = fill, lineWidth_dp = LineWidth config\<rparr>
             \<in> set (snd (Main w args)))) \<and>
    Main sample_world [''1-2,0''] =
      (Exit exitCodeOK,
       [NewRGBA 200 200, DrawBackground (RGBA 255 255 255 255),
        Draw \<lparr>min_dp = \<lparr>minX = 55, minY = 5, maxX = 95, maxY = 45\<rparr>,
              max_dp = \<lparr>minX = 105, minY = 5, maxX = 145, maxY = 45\<rparr>,
              strokeColor_dp = RGBA 0 0 0 255, fillColor_dp = RGBA 0 0 0 0,
              lineWidth_dp = 2\<rparr>,
        Encode])"
proof (rule conjI)
  let ?W = "Bounds_Max (Width config)" and ?H = "Bounds_Max (Height config)"
  from arg_draw_ok [OF assms(2,3,4), of ?W ?H "colors_of w" fill]
  obtain r r2 where
    r: "rectangle \<lparr>x_rp = x, y_rp = y, column_rp = Column config, row_rp = Row config,
                 width_rp = ?W, height_rp = ?H, pad_rp = Pad config\<rparr> = Inr r"
    and r2: "rectangle \<lparr>x_rp = x2, y_rp = y2, column_rp = Column config, row_rp = Row config,
                 width_rp = ?W, height_rp = ?H, pad_rp = Pad config\<rparr> = Inr r2"
    and d: "arg_draw (colors_of w) config ?W ?H (fill, xy) =
       Inr \<lparr>min_dp = r, max_dp = r2, strokeColor_dp = lookup (colors_of w) (StrokeColor config),
            fillColor_dp = fill, lineWidth_dp = LineWidth config\<rparr>"
    by blast
  let ?dp = "\<lparr>min_dp = r, max_dp = r2, strokeColor_dp = lookup (colors_of w) (StrokeColor config),
            fillColor_dp = fill, lineWidth_dp = LineWidth config\<rparr>"
  have b: "loop_body (colors_of w) config ?W ?H arg = Inr ?dp"
    using assms(1) d by (simp add: loop_body_def)
  have run: "Draw ?dp \<in> set (snd (Main w args))"
    if h: "docopt_ParseArgs w args = Some config \<and>
       (OutFile config = [] \<or> os_Create w (OutFile config)) \<and>
       image_NewRGBA w (Width config) (Height config) = None \<and>
       Args config = pre @ arg # post \<and>
       (\<forall>a \<in> set pre. \<exists>dp. loop_body (colors_of w) config ?W ?H a = Inr dp)"
  proof -
    from h have p: "docopt_ParseArgs w args = Some config"
      and o: "OutFile config = [] \<or> os_Create w (OutFile config)"
      and n: "image_NewRGBA w (Width config) (Height config) = None"
      and a: "Args config = pre @ arg # post"
      and ok: "\<forall>a \<in> set pre. \<exists>dp. loop_body (colors_of w) config ?W ?H a = Inr dp"
      by simp_all
    have "Draw ?dp \<in> set (snd (render (loop_body (colors_of w) config ?W ?H)
        (Args config) dest))" for dest
      unfolding a using ok b by (rule render_reaches)
    then show ?thesis
      unfolding Main_def by (rule Main_with_effects [where body = loop_body, OF p o n])
  qed
  from r r2 b run
  show "\<exists>r r2.
      rectangle \<lparr>x_rp = x, y_rp = y, column_rp = Column config, row_rp = Row config,
                 width_rp = ?W, height_rp = ?H, pad_rp = Pad config\<rparr> = Inr r \<and>
      rectangle \<lparr>x_rp = x2, y_rp = y2, column_rp = Column config, row_rp = Row config,
                 width_rp = ?W, height_rp = ?H, pad_rp = Pad config\<rparr> = Inr r2 \<and>
      loop_body (colors_of w) config ?W ?H arg
        = Inr \<lparr>min_dp = r, max_dp = r2,
               strokeColor_dp = lookup (colors_of w) (StrokeColor config),
               fillColor_dp = fill, lineWidth_dp = LineWidth config\<rparr> \<and>
      (docopt_ParseArgs w args = Some config \<and>
       (OutFile config = [] \<or> os_Create w (OutFile config)) \<and>
       image_NewRGBA w (Width config) (Height config) = None \<and>
       Args config = pre @ arg # post \<and>
       (\<forall>a \<in> set pre. \<exists>dp. loop_body (colors_of w) config ?W ?H a = Inr dp)
       \<longrightarrow> Draw \<lparr>min_dp = r, max_dp = r2,
                  strokeColor_dp = lookup (colors_of w) (StrokeColor config),
                  fillColor_dp = fill, lineWidth_dp = LineWidth config\<rparr>
             \<in> set (snd (Main w args)))"
    by blast
next
  have m: "minMaxXY ''1-2,0'' = Inr (1, 0, 2, 0)"
    by (simp add: minMaxXY_def splitHyphen_def eval_defs)
  have b: "loop_body sample_colors (default_config [''1-2,0'']) 200 200 ''1-2,0'' =
     Inr \<lparr>min_dp = \<lparr>minX = 55, minY = 5, maxX = 95, maxY = 45\<rparr>,
          max_dp = \<lparr>minX = 105, minY = 5, maxX = 145, maxY = 45\<rparr>,
          strokeColor_dp = RGBA 0 0 0 255, fillColor_dp = RGBA 0 0 0 0,
          lineWidth_dp = 2\<rparr>"
    by (simp add: loop_body_no_colon arg_draw_def m rectangle_def default_config_def
        quot_200_4 lookup_def sample_colors_def)
  have n: "image_NewRGBA sample_world 200 200 = None"
    using image_NewRGBA_sample [of "[]"] by (simp add: default_config_def)
  have bg: "lookup sample_colors ''white'' = RGBA 255 255 255 255"
    by (simp add: lookup_def sample_colors_def)
  have c: "default_config [''1-2,0''] =
     \<lparr>Width = 200, Height = 200, Column = 4, Row = 4, Pad = 5,
      BackgroundColor = ''white'', StrokeColor = ''black'', FillColor = ''none'',
      LineWidth = 2, OutFile = [], Args = [''1-2,0'']\<rparr>"
    by (simp add: default_config_def)
  show "Main sample_world [''1-2,0''] =
      (Exit exitCodeOK,
       [NewRGBA 200 200, DrawBackground (RGBA 255 255 255 255),
        Draw \<lparr>min_dp = \<lparr>minX = 55, minY = 5, maxX = 95, maxY = 45\<rparr>,
              max_dp = \<lparr>minX = 105, minY = 5, maxX = 145, maxY = 45\<rparr>,
              strokeColor_dp = RGBA 0 0 0 255, fillColor_dp = RGBA 0 0 0 0,
              lineWidth_dp = 2\<rparr>,
        Encode])"
    using b n bg
    by (simp add: Main_def Main_with_def sample_world_def c Bounds_Max_def)
qed

text \<open>
  The reversed range \<open>2-1,0\<close> as second argument of a run in the sample world: \<open>draw\<close> is
  called with the rectangle of the cell \<open>(2, 0)\<close> as \<open>min\<close> and that of the cell \<open>(1, 0)\<close>
  as \<open>max\<close>, so that the left edge 105 of \<open>min\<close> lies to the right of the right edge 95
  of \<open>max\<close>.
\<close>

theorem Main_draw_positional_witness:
  "arg_color sample_colors (default_config [''red:0,0'', ''2-1,0'']) ''2-1,0''
     = Inr (RGBA 0 0 0 0, ''2-1,0'') \<and>
   minMaxXY ''2-1,0'' = Inr (2, 0, 1, 0) \<and>
   image_NewRGBA sample_world 200 200 = None \<and>
   Draw \<lparr>min_dp = \<lparr>minX = 105, minY = 5, maxX = 145, maxY = 45\<rparr>,
         max_dp = \<lparr>minX = 55, minY = 5, maxX = 95, maxY = 45\<rparr>,
         strokeColor_dp = RGBA 0 0 0 255, fillColor_dp = RGBA 0 0 0 0,
         lineWidth_dp = 2\<rparr>
     \<in> set (snd (Main sample_world [''red:0,0'', ''2-1,0'']))"
proof -
  let ?args = "[''red:0,0'', ''2-1,0'']"
  let ?c = "default_config ?args"
  have h1: "arg_color (colors_of sample_world) ?c ''2-1,0'' = Inr (RGBA 0 0 0 0, ''2-1,0'')"
    by (simp add: sample_run arg_color_def Contains_def lookup_def sample_colors_def
        default_config_def)
  have h2: "minMaxXY ''2-1,0'' = Inr (2, 0, 1, 0)"
    by (simp add: minMaxXY_def splitHyphen_def eval_defs)
  have h3: "Column ?c \<noteq> 0" and h4: "Row ?c \<noteq> 0" by (simp_all add: sample_run)
  have n: "image_NewRGBA sample_world (Width ?c) (Height ?c) = None"
    by (rule image_NewRGBA_sample)
  have a: "Args ?c = [''red:0,0''] @ ''2-1,0'' # []" by (simp add: sample_run)
  have red: "minMaxXY ''0,0'' = Inr (0, 0, 0, 0)"
    by (simp add: minMaxXY_def splitHyphen_def eval_defs)
  have "arg_color sample_colors ?c ''red:0,0'' = Inr (RGBA 255 0 0 255, ''0,0'')"
    by (simp add: arg_color_def Contains_def at_def sample_colors_def)
  then have "\<exists>dp. loop_body sample_colors ?c 200 200 ''red:0,0'' = Inr dp"
    using arg_draw_ok [OF red, of ?c 200 200 sample_colors "RGBA 255 0 0 255"]
    by (auto simp: loop_body_def sample_run)
  then have pre: "\<forall>a \<in> set [''red:0,0'']. \<exists>dp. loop_body (colors_of sample_world) ?c
       (Bounds_Max (Width ?c)) (Bounds_Max (Height ?c)) a = Inr dp"
    by (simp add: sample_run)
  have r1: "rectangle \<lparr>x_rp = 2, y_rp = 0, column_rp = Column ?c, row_rp = Row ?c,
       width_rp = Bounds_Max (Width ?c), height_rp = Bounds_Max (Height ?c), pad_rp = Pad ?c\<rparr>
         = Inr \<lparr>minX = 105, minY = 5, maxX = 145, maxY = 45\<rparr>"
    by (simp add: rectangle_def sample_run quot_200_4)
  have r2: "rectangle \<lparr>x_rp = 1, y_rp = 0, column_rp = Column ?c, row_rp = Row ?c,
       width_rp = Bounds_Max (Width ?c), height_rp = Bounds_Max (Height ?c), pad_rp = Pad ?c\<rparr>
         = Inr \<lparr>minX = 55, minY = 5, maxX = 95, maxY = 45\<rparr>"
    by (simp add: rectangle_def sample_run quot_200_4)
  have s: "lookup (colors_of sample_world) (StrokeColor ?c) = RGBA 0 0 0 255"
    "LineWidth ?c = 2"
    by (simp_all add: sample_run lookup_def sample_colors_def default_config_def)
  from Main_draw_positional [OF h1 h2 h3 h4, where args = ?args and pre = "[''red:0,0'']"
      and post = "[]"]
  have "Draw \<lparr>min_dp = \<lparr>minX = 105, minY = 5, maxX = 145, maxY = 45\<rparr>,
         max_dp = \<lparr>minX = 55, minY = 5, maxX = 95, maxY = 45\<rparr>,
         strokeColor_dp = RGBA 0 0 0 255, fillColor_dp = RGBA 0 0 0 0,
         lineWidth_dp = 2\<rparr>
     \<in> set (snd (Main sample_world ?args))"
    unfolding r1 r2 s using sample_run(1,2) [of ?args] n a pre by auto
  moreover have "image_NewRGBA sample_world 200 200 = None"
    using n by (simp add: default_config_def)
  ultimately show ?thesis using h1 h2 by (simp add: sample_run)
qed

text \<open>
  Claim C4. A coordinate token fails to parse when the loop reaches its argument (the
  arguments before it are drawn), the color prefix of the argument resolves, and
  \<open>minMaxXY\<close> returns an error for its coordinate part. \<open>Main\<close> then ends with exit code 3,
  and \<open>png.Encode\<close> is never called. When every argument is drawn, \<open>png.Encode\<close> is the
  last effect, and \<open>Main\<close> ends with exit code 0 when it succeeds (and with 4 when it
  fails). The loop is reached when the options parse, the output opens and the image is
  allocated.
\<close>

theorem Main_rectangle_error:
  assumes "docopt_ParseArgs w args = Some config"
    and "OutFile config = [] \<or> os_Create w (OutFile config)"
    and "image_NewRGBA w (Width config) (Height config) = None"
  shows "(Args config = pre @ arg # post \<and>
          (\<forall>a \<in> set pre. \<exists>dp. loop_body (colors_of w) config (Bounds_Max (Width config))
                                    (Bounds_Max (Height config)) a = Inr dp) \<and>
          arg_color (colors_of w) config arg = Inr (c, xy) \<and> minMaxXY xy = Inl f
          \<longrightarrow> fst (Main w args) = Exit exitCodeRectangleError \<and>
              Encode \<notin> set (snd (Main w args))) \<and>
         ((\<forall>a \<in> set (Args config). \<exists>dp. loop_body (colors_of w) config (Bounds_Max (Width config))
                                    (Bounds_Max (Height config)) a = Inr dp)
          \<longrightarrow> (\<exists>dest. Encode \<notin> set dest \<and> snd (Main w args) = dest @ [Encode] \<and>
                 fst (Main w args) =
                   (if png_Encode w dest then Exit exitCodeOK
                    else Exit exitCodeImageEncodeError)))"
proof (rule conjI; rule impI)
  let ?b = "loop_body (colors_of w) config (Bounds_Max (Width config))
              (Bounds_Max (Height config))"
  assume h: "Args config = pre @ arg # post \<and>
          (\<forall>a \<in> set pre. \<exists>dp. ?b a = Inr dp) \<and>
          arg_color (colors_of w) config arg = Inr (c, xy) \<and> minMaxXY xy = Inl f"
  then have a: "Args config = pre @ arg # post"
    and ok: "\<forall>a \<in> set pre. \<exists>dp. ?b a = Inr dp" by simp_all
  from h have bad: "?b arg = Inl (Exit exitCodeRectangleError)"
    by (simp add: loop_body_def arg_draw_error)
  have r: "fst (render ?b (Args config) dest) = Some (Exit exitCodeRectangleError)" for dest
    unfolding a using ok bad by (rule render_first_failure)
  show "fst (Main w args) = Exit exitCodeRectangleError \<and> Encode \<notin> set (snd (Main w args))"
    unfolding Main_def by (rule Main_with_stops [where body = loop_body, OF assms r])
next
  let ?b = "loop_body (colors_of w) config (Bounds_Max (Width config))
              (Bounds_Max (Height config))"
  assume "\<forall>a \<in> set (Args config). \<exists>dp. ?b a = Inr dp"
  then have r: "fst (render ?b (Args config) dest) = None" for dest
    by (rule render_None)
  show "\<exists>dest. Encode \<notin> set dest \<and> snd (Main w args) = dest @ [Encode] \<and>
                 fst (Main w args) =
                   (if png_Encode w dest then Exit exitCodeOK
                    else Exit exitCodeImageEncodeError)"
    unfolding Main_def by (rule Main_with_completes [where body = loop_body, OF assms r])
qed

text \<open>
  Three runs in the sample world with the default options. In \<open>red:0,0\<close>, \<open>1;2\<close> the first
  argument is drawn and \<open>1;2\<close> has no comma: exit code 3, nothing encoded. In \<open>zz\<close>,
  \<open>redd:0,0\<close> the first argument has no comma: exit code 3, whatever follows. In
  \<open>red:0,0\<close>, \<open>1-2,0\<close> both arguments are drawn: the image is encoded, exit code 0.
\<close>

theorem Main_rectangle_error_witness:
  "image_NewRGBA sample_world 200 200 = None \<and>
   arg_color sample_colors (default_config [''red:0,0'', ''1;2'']) ''1;2''
     = Inr (RGBA 0 0 0 0, ''1;2'') \<and>
   minMaxXY ''1;2'' = Inl (Error NeedComma) \<and>
   fst (Main sample_world [''red:0,0'', ''1;2'']) = Exit exitCodeRectangleError \<and>
   Encode \<notin> set (snd (Main sample_world [''red:0,0'', ''1;2''])) \<and>
   minMaxXY ''zz'' = Inl (Error NeedComma) \<and>
   fst (Main sample_world [''zz'', ''redd:0,0'']) = Exit exitCodeRectangleError \<and>
   Encode \<notin> set (snd (Main sample_world [''zz'', ''redd:0,0''])) \<and>
   fst (Main sample_world [''red:0,0'', ''1-2,0'']) = Exit exitCodeOK \<and>
   last (snd (Main sample_world [''red:0,0'', ''1-2,0''])) = Encode"
proof -
  let ?bad = "[''red:0,0'', ''1;2'']"
  let ?bad2 = "[''zz'', ''redd:0,0'']"
  let ?good = "[''red:0,0'', ''1-2,0'']"
  have n: "image_NewRGBA sample_world 200 200 = None"
    using image_NewRGBA_sample [of "[]"] by (simp add: default_config_def)
  have plain: "arg_color sample_colors (default_config args) ''1;2''
      = Inr (RGBA 0 0 0 0, ''1;2'')"
    "arg_color sample_colors (default_config args) ''zz'' = Inr (RGBA 0 0 0 0, ''zz'')" for args
    by (simp_all add: arg_color_def Contains_def lookup_def sample_colors_def default_config_def)
  have m1: "minMaxXY ''1;2'' = Inl (Error NeedComma)"
    and m2: "minMaxXY ''zz'' = Inl (Error NeedComma)"
    by (simp_all add: minMaxXY_def Contains_def)
  have m3: "minMaxXY ''0,0'' = Inr (0, 0, 0, 0)" and m4: "minMaxXY ''1-2,0'' = Inr (1, 0, 2, 0)"
    by (simp_all add: minMaxXY_def splitHyphen_def eval_defs)
  have "arg_color sample_colors (default_config args) ''red:0,0''
      = Inr (RGBA 255 0 0 255, ''0,0'')" for args
    by (simp add: arg_color_def Contains_def at_def sample_colors_def)
  then have red: "\<exists>dp. loop_body sample_colors (default_config args) 200 200 ''red:0,0'' = Inr dp"
    for args
    using arg_draw_ok [OF m3, of "default_config args" 200 200 sample_colors "RGBA 255 0 0 255"]
    by (auto simp: loop_body_def sample_run)
  have range: "\<exists>dp. loop_body sample_colors (default_config args) 200 200 ''1-2,0'' = Inr dp"
    for args
    using arg_draw_ok [OF m4, of "default_config args" 200 200 sample_colors "RGBA 0 0 0 0"]
    by (auto simp: loop_body_no_colon lookup_def sample_colors_def default_config_def)
  note t = Main_rectangle_error [OF sample_run(1,2) image_NewRGBA_sample]
  have bad: "fst (Main sample_world ?bad) = Exit exitCodeRectangleError \<and>
      Encode \<notin> set (snd (Main sample_world ?bad))"
    using t [of ?bad "[''red:0,0'']" "''1;2''" "[]" "RGBA 0 0 0 0" "''1;2''" "Error NeedComma"]
      red plain m1
    by (simp add: sample_run)
  have bad2: "fst (Main sample_world ?bad2) = Exit exitCodeRectangleError \<and>
      Encode \<notin> set (snd (Main sample_world ?bad2))"
    using t [of ?bad2 "[]" "''zz''" "[''redd:0,0'']" "RGBA 0 0 0 0" "''zz''" "Error NeedComma"]
      plain m2
    by (simp add: sample_run)
  have "\<exists>dest. Encode \<notin> set dest \<and> snd (Main sample_world ?good) = dest @ [Encode] \<and>
      fst (Main sample_world ?good) =
        (if png_Encode sample_world dest then Exit exitCodeOK else Exit exitCodeImageEncodeError)"
    using t [of ?good] red range by (simp add: sample_run)
  then have good: "fst (Main sample_world ?good) = Exit exitCodeOK \<and>
      last (snd (Main sample_world ?good)) = Encode"
    by (auto simp: sample_world_def)
  from n plain m1 m2 bad bad2 good show ?thesis by simp
qed

lemma Split_prefix:
  "c \<notin> set a \<Longrightarrow> \<exists>p ps. Split (a @ c # r) c = a # p # ps"
proof -
  assume "c \<notin> set a"
  then have "Split (a @ c # r) c = a # Split r c" by (rule Split_append)
  moreover obtain p ps where "Split r c = p # ps"
    using Split_not_Nil [of r c] by (cases "Split r c") auto
  ultimately show ?thesis by simp
qed

lemma at_Inl: "at xs i = Inl p \<Longrightarrow> p = IndexOutOfRange"
  by (simp add: at_def split: if_splits)

lemma at_2_short: "length xs < 3 \<Longrightarrow> at xs 2 = Inl IndexOutOfRange"
  by (simp add: at_def)

lemma arg_color_panics:
  assumes "colors color = None" and "CHR '':'' \<notin> set color"
    and "length (Split color CHR '','') < 3"
  shows "arg_color colors config (color @ '':'' @ rest) = Inl (Crash IndexOutOfRange)"
proof -
  obtain p ps where f: "Split (color @ '':'' @ rest) CHR '':'' = color # p # ps"
    using Split_prefix [OF assms(2), of rest] by auto
  have c2: "at (Split color CHR '','') 2 = Inl IndexOutOfRange"
    using assms(3) by (rule at_2_short)
  show ?thesis
    using assms(1) f c2
    by (auto simp: arg_color_def Contains_def at_Cons_0 Let_def split: sum.splits dest: at_Inl)
qed

text \<open>
  Claim C9. In \<open>main.go\<close>, for an argument \<open>COLOR:XY\<close> whose \<open>COLOR\<close> is not in the color
  table and splits on commas into fewer than three parts, the access \<open>cols[2]\<close> is out of
  range (and \<open>cols[1]\<close> too when \<open>COLOR\<close> has no comma): the loop body panics. A run that
  reaches such an argument (the options parse, the output opens, the image is allocated
  and the arguments before it are drawn) dies of the panic: \<open>Main\<close> returns no exit
  code, not the color error 5 either, and nothing is encoded.
\<close>

theorem Main_color_index_panic:
  assumes "colors_of w color = None" and "CHR '':'' \<notin> set color"
    and "length (Split color CHR '','') < 3"
  shows "at (Split color CHR '','') 2 = Inl IndexOutOfRange \<and>
     (CHR '','' \<notin> set color \<longrightarrow> at (Split color CHR '','') 1 = Inl IndexOutOfRange) \<and>
     loop_body (colors_of w) config width height (color @ '':'' @ rest)
       = Inl (Crash IndexOutOfRange) \<and>
     (docopt_ParseArgs w args = Some config \<and>
      (OutFile config = [] \<or> os_Create w (OutFile config)) \<and>
      image_NewRGBA w (Width config) (Height config) = None \<and>
      Args config = pre @ (color @ '':'' @ rest) # post \<and>
      (\<forall>a \<in> set pre. \<forall>width height. \<exists>dp. loop_body (colors_of w) config width height a = Inr dp)
      \<longrightarrow> fst (Main w args) = Crash IndexOutOfRange \<and>
          fst (Main w args) \<noteq> Exit exitCodeColorError \<and>
          Encode \<notin> set (snd (Main w args)))"
proof -
  have c2: "at (Split color CHR '','') 2 = Inl IndexOutOfRange"
    using assms(3) by (rule at_2_short)
  have c1: "at (Split color CHR '','') 1 = Inl IndexOutOfRange" if "CHR '','' \<notin> set color"
    using that by (simp add: Split_no_sep at_def)
  have body: "loop_body (colors_of w) config width height (color @ '':'' @ rest)
       = Inl (Crash IndexOutOfRange)" for width height
    using arg_color_panics [where colors = "colors_of w" and color = color, OF assms, of config rest]
    by (simp add: loop_body_def)
  have run: "fst (Main w args) = Crash IndexOutOfRange \<and>
          fst (Main w args) \<noteq> Exit exitCodeColorError \<and>
          Encode \<notin> set (snd (Main w args))"
    if h: "docopt_ParseArgs w args = Some config \<and>
      (OutFile config = [] \<or> os_Create w (OutFile config)) \<and>
      image_NewRGBA w (Width config) (Height config) = None \<and>
      Args config = pre @ (color @ '':'' @ rest) # post \<and>
      (\<forall>a \<in> set pre. \<forall>width height. \<exists>dp. loop_body (colors_of w) config width height a = Inr dp)"
  proof -
    have r: "fst (render (loop_body (colors_of w) config width height) (Args config) dest)
          = Some (Crash IndexOutOfRange)" for width height dest
    proof -
      from h have "\<forall>a \<in> set pre. \<exists>dp. loop_body (colors_of w) config width height a = Inr dp"
        by blast
      then have "fst (render (loop_body (colors_of w) config width height)
           (pre @ (color @ '':'' @ rest) # post) dest) = Some (Crash IndexOutOfRange)"
        using body by (rule render_first_failure)
      with h show ?thesis by simp
    qed
    from h have p: "docopt_ParseArgs w args = Some config"
      and o: "OutFile config = [] \<or> os_Create w (OutFile config)"
      and n: "image_NewRGBA w (Width config) (Height config) = None" by simp_all
    have "fst (Main w args) = Crash IndexOutOfRange \<and> Encode \<notin> set (snd (Main w args))"
      unfolding Main_def by (rule Main_with_stops [where body = loop_body, OF p o n r])
    then show ?thesis by simp
  qed
  from c2 c1 body run show ?thesis by blast
qed

text \<open>The misspelled name \<open>redd\<close> in the sample world, as the only argument.\<close>

theorem Main_color_index_panic_witness:
  "colors_of sample_world ''redd'' = None \<and> CHR '':'' \<notin> set ''redd'' \<and>
   length (Split ''redd'' CHR '','') < 3 \<and> CHR '','' \<notin> set ''redd'' \<and>
   at (Split ''redd'' CHR '','') 1 = Inl IndexOutOfRange \<and>
   at (Split ''redd'' CHR '','') 2 = Inl IndexOutOfRange \<and>
   docopt_ParseArgs sample_world [''redd:0,0''] = Some (default_config [''redd:0,0'']) \<and>
   image_NewRGBA sample_world 200 200 = None \<and>
   fst (Main sample_world [''redd:0,0'']) = Crash IndexOutOfRange \<and>
   Encode \<notin> set (snd (Main sample_world [''redd:0,0'']))"
proof -
  have h1: "colors_of sample_world ''redd'' = None"
    by (simp add: sample_world_def sample_colors_def)
  have h2: "CHR '':'' \<notin> set ''redd''" by simp
  have h3: "length (Split ''redd'' CHR '','') < 3" by simp
  have h4: "CHR '','' \<notin> set ''redd''" by simp
  have p: "docopt_ParseArgs sample_world [''redd:0,0''] = Some (default_config [''redd:0,0''])"
    by (simp add: sample_world_def)
  have n: "image_NewRGBA sample_world (Width (default_config [''redd:0,0'']))
      (Height (default_config [''redd:0,0''])) = None"
    by (rule image_NewRGBA_sample)
  have n': "image_NewRGBA sample_world 200 200 = None"
    using n by (simp add: default_config_def)
  have c: "OutFile (default_config [''redd:0,0'']) = []"
    "Args (default_config [''redd:0,0'']) = [] @ (''redd'' @ '':'' @ ''0,0'') # []"
    by (simp_all add: default_config_def)
  from Main_color_index_panic [OF h1 h2 h3, where config = "default_config [''redd:0,0'']"
      and args = "[''redd:0,0'']" and pre = "[]" and rest = "''0,0''" and post = "[]"]
    h4 p c n
  have "at (Split ''redd'' CHR '','') 1 = Inl IndexOutOfRange \<and>
   at (Split ''redd'' CHR '','') 2 = Inl IndexOutOfRange \<and>
   fst (Main sample_world [''redd:0,0'']) = Crash IndexOutOfRange \<and>
   Encode \<notin> set (snd (Main sample_world [''redd:0,0'']))"
    by simp
  with h1 h2 h3 h4 p n' show ?thesis by blast
qed

text \<open>
  Claim C6 says that in \<open>main.go\<close> every color that does not resolve ends the run with the
  color error 5. The run on \<open>redd:0,0\<close> in the sample world does not: the name has no
  comma, \<open>cols[1]\<close> is out of range, and the process dies of the panic.
\<close>

theorem Main_unknown_color_name:
  "fst (Main sample_world [''redd:0,0'']) = Crash IndexOutOfRange"
proof -
  have c: "sample_colors ''redd'' = None" by (simp add: sample_colors_def)
  have "arg_color sample_colors (default_config [''redd:0,0'']) ''redd:0,0''
          = Inl (Crash IndexOutOfRange)"
    by (simp add: arg_color_def c Contains_def at_def)
  then show ?thesis
    using image_NewRGBA_sample [of "[''redd:0,0'']"]
    by (simp add: Main_def Main_with_def sample_world_def default_config_def loop_body_def
        Bounds_Max_def)
qed

lemma arg_color_base_unknown:
  assumes "colors color = None" and "CHR '':'' \<notin> set color" and "CHR '':'' \<notin> set xy"
  shows "arg_color_base colors config (color @ '':'' @ xy) = Inr (RGBA 0 0 0 0, xy)"
proof -
  have "Split (color @ '':'' @ xy) CHR '':'' = color # xy # []"
    using assms(2,3) by (simp add: Split_append Split_no_sep)
  then show ?thesis
    using assms(1) by (simp add: arg_color_base_def Contains_def at_def lookup_def)
qed

lemma arg_color_base_total: "\<exists>c xy. arg_color_base colors config a = Inr (c, xy)"
proof (cases "CHR '':'' \<in> set a")
  case False
  then show ?thesis by (simp add: arg_color_base_def Contains_def)
next
  case True
  then obtain p q rest where "Split a CHR '':'' = p # q # rest" by (rule Split_two)
  with True show ?thesis by (simp add: arg_color_base_def Contains_def at_def)
qed

lemma loop_body_base_outcomes:
  assumes "arg_color_base colors config a = Inr (c, xy)"
    and "Column config \<noteq> 0" and "Row config \<noteq> 0"
  shows "(\<exists>dp. loop_body_base colors config width height a = Inr dp \<and> fillColor_dp dp = c
            \<and> (\<exists>v. minMaxXY xy = Inr v)) \<or>
         (loop_body_base colors config width height a = Inl (Exit exitCodeRectangleError)
            \<and> (\<exists>f. minMaxXY xy = Inl f))"
  using assms arg_draw_cases [of config colors width height c xy]
  by (auto simp: loop_body_base_def)

text \<open>
  Claim C8. In the variant without literal colors, an argument \<open>COLOR:XY\<close> whose \<open>COLOR\<close> is
  not in the color table gets the zero value of \<open>color.RGBA\<close> as fill color, and no error:
  when \<open>XY\<close> parses (and the column and row counts are not zero), \<open>draw\<close> is called with
  that fill color. A run with such an argument ends with exit code 0 when the options
  parse, the output opens, the image is allocated, every coordinate part parses and the
  encoding succeeds, and the draw call with the zero fill color is among its effects.
\<close>

theorem Main_base_unknown_color:
  assumes "colors_of w color = None" and "CHR '':'' \<notin> set color" and "CHR '':'' \<notin> set xy"
  shows "arg_color_base (colors_of w) config (color @ '':'' @ xy) = Inr (RGBA 0 0 0 0, xy) \<and>
     (minMaxXY xy = Inr v \<and> Column config \<noteq> 0 \<and> Row config \<noteq> 0 \<longrightarrow>
        (\<exists>dp. loop_body_base (colors_of w) config width height (color @ '':'' @ xy) = Inr dp \<and>
              fillColor_dp dp = RGBA 0 0 0 0)) \<and>
     (docopt_ParseArgs w args = Some config \<and>
      (OutFile config = [] \<or> os_Create w (OutFile config)) \<and>
      image_NewRGBA w (Width config) (Height config) = None \<and>
      Column config \<noteq> 0 \<and> Row config \<noteq> 0 \<and>
      color @ '':'' @ xy \<in> set (Args config) \<and>
      (\<forall>a \<in> set (Args config). \<forall>c s.
          arg_color_base (colors_of w) config a = Inr (c, s) \<longrightarrow> (\<exists>v. minMaxXY s = Inr v)) \<and>
      (\<forall>dest. png_Encode w dest)
      \<longrightarrow> fst (Main_base w args) = Exit exitCodeOK \<and>
          (\<exists>dp. Draw dp \<in> set (snd (Main_base w args)) \<and> fillColor_dp dp = RGBA 0 0 0 0))"
proof -
  have ac: "arg_color_base (colors_of w) config (color @ '':'' @ xy) = Inr (RGBA 0 0 0 0, xy)"
    using assms by (rule arg_color_base_unknown)
  have body: "\<exists>dp. loop_body_base (colors_of w) config width height (color @ '':'' @ xy) = Inr dp \<and>
              fillColor_dp dp = RGBA 0 0 0 0"
    if "minMaxXY xy = Inr v \<and> Column config \<noteq> 0 \<and> Row config \<noteq> 0" for v width height
    using that loop_body_base_outcomes [OF ac, of width height] by auto
  have run: "fst (Main_base w args) = Exit exitCodeOK \<and>
          (\<exists>dp. Draw dp \<in> set (snd (Main_base w args)) \<and> fillColor_dp dp = RGBA 0 0 0 0)"
    if h: "docopt_ParseArgs w args = Some config \<and>
      (OutFile config = [] \<or> os_Create w (OutFile config)) \<and>
      image_NewRGBA w (Width config) (Height config) = None \<and>
      Column config \<noteq> 0 \<and> Row config \<noteq> 0 \<and>
      color @ '':'' @ xy \<in> set (Args config) \<and>
      (\<forall>a \<in> set (Args config). \<forall>c s.
          arg_color_base (colors_of w) config a = Inr (c, s) \<longrightarrow> (\<exists>v. minMaxXY s = Inr v)) \<and>
      (\<forall>dest. png_Encode w dest)"
  proof -
    from h have p: "docopt_ParseArgs w args = Some config"
      and o: "OutFile config = [] \<or> os_Create w (OutFile config)"
      and n: "image_NewRGBA w (Width config) (Height config) = None"
      and g: "Column config \<noteq> 0" "Row config \<noteq> 0"
      and m: "color @ '':'' @ xy \<in> set (Args config)"
      and e: "\<And>dest. png_Encode w dest"
      by simp_all
    have r: "fst (render (loop_body_base (colors_of w) config width height) (Args config) dest)
        = None" for width height dest
    proof (rule render_None, rule ballI)
      fix a
      assume a: "a \<in> set (Args config)"
      obtain c s where cs: "arg_color_base (colors_of w) config a = Inr (c, s)"
        using arg_color_base_total [of "colors_of w" config a] by blast
      with a h obtain v where "minMaxXY s = Inr v" by blast
      with loop_body_base_outcomes [OF cs g, of width height]
      show "\<exists>dp. loop_body_base (colors_of w) config width height a = Inr dp" by auto
    qed
    from m h ac obtain v where v: "minMaxXY xy = Inr v" by blast
    have d: "\<exists>dp. loop_body_base (colors_of w) config width height (color @ '':'' @ xy) = Inr dp \<and>
              fillColor_dp dp = RGBA 0 0 0 0" for width height
      using body [of v width height] v g by simp
    from Main_with_completes [where body = loop_body_base, OF p o n r]
    obtain dest where "fst (Main_with loop_body_base w args) =
        (if png_Encode w dest then Exit exitCodeOK else Exit exitCodeImageEncodeError)"
      by blast
    with e have ok: "fst (Main_base w args) = Exit exitCodeOK"
      by (simp add: Main_base_def)
    from d obtain dp where dp: "loop_body_base (colors_of w) config (Bounds_Max (Width config))
        (Bounds_Max (Height config)) (color @ '':'' @ xy) = Inr dp"
      and z: "fillColor_dp dp = RGBA 0 0 0 0"
      by blast
    have "Draw dp \<in> set (snd (render (loop_body_base (colors_of w) config
        (Bounds_Max (Width config)) (Bounds_Max (Height config))) (Args config) dest))" for dest
      using dp m r by (rule render_draws)
    then have "Draw dp \<in> set (snd (Main_base w args))"
      unfolding Main_base_def
      by (rule Main_with_effects [where body = loop_body_base, OF p o n])
    with ok z show ?thesis by blast
  qed
  from ac body run show ?thesis by blast
qed

text \<open>The run on \<open>redd:0,0\<close> in the sample world, with the default options.\<close>

theorem Main_base_unknown_color_witness:
  "colors_of sample_world ''redd'' = None \<and> CHR '':'' \<notin> set ''redd'' \<and>
   CHR '':'' \<notin> set ''0,0'' \<and> minMaxXY ''0,0'' = Inr (0, 0, 0, 0) \<and>
   image_NewRGBA sample_world 200 200 = None \<and>
   arg_color_base sample_colors (default_config [''redd:0,0'']) ''redd:0,0''
     = Inr (RGBA 0 0 0 0, ''0,0'') \<and>
   fst (Main_base sample_world [''redd:0,0'']) = Exit exitCodeOK \<and>
   (\<exists>dp. Draw dp \<in> set (snd (Main_base sample_world [''redd:0,0''])) \<and>
      fillColor_dp dp = RGBA 0 0 0 0)"
proof -
  let ?args = "[''redd:0,0'']"
  let ?c = "default_config ?args"
  have w: "colors_of sample_world = sample_colors"
    by (simp add: sample_world_def)
  have h1: "colors_of sample_world ''redd'' = None"
    by (simp add: sample_world_def sample_colors_def)
  have h2: "CHR '':'' \<notin> set ''redd''" and h3: "CHR '':'' \<notin> set ''0,0''" by simp_all
  have m: "minMaxXY ''0,0'' = Inr (0, 0, 0, 0)"
    by (simp add: minMaxXY_def splitHyphen_def eval_defs)
  have p: "docopt_ParseArgs sample_world ?args = Some ?c"
    "\<forall>dest. png_Encode sample_world dest"
    by (simp_all add: sample_world_def)
  have c: "OutFile ?c = []" "Column ?c \<noteq> 0" "Row ?c \<noteq> 0" "Args ?c = ?args"
    by (simp_all add: default_config_def)
  have n: "image_NewRGBA sample_world (Width ?c) (Height ?c) = None"
    by (rule image_NewRGBA_sample)
  have n': "image_NewRGBA sample_world 200 200 = None"
    using n by (simp add: default_config_def)
  note t = Main_base_unknown_color [OF h1 h2 h3, where config = ?c and args = ?args
      and v = "(0, 0, 0, 0)"]
  from t have ac: "arg_color_base sample_colors ?c ''redd:0,0'' = Inr (RGBA 0 0 0 0, ''0,0'')"
    by (simp add: w)
  have all: "\<forall>a \<in> set (Args ?c). \<forall>c s.
      arg_color_base (colors_of sample_world) ?c a = Inr (c, s) \<longrightarrow> (\<exists>v. minMaxXY s = Inr v)"
    using ac m by (simp add: c(4) w)
  have mem: "''redd'' @ '':'' @ ''0,0'' \<in> set (Args ?c)" by (simp add: c(4))
  from t p c(1,2,3) mem all n
  have "fst (Main_base sample_world ?args) = Exit exitCodeOK \<and>
      (\<exists>dp. Draw dp \<in> set (snd (Main_base sample_world ?args)) \<and>
         fillColor_dp dp = RGBA 0 0 0 0)"
    by blast
  with h1 h2 h3 m ac n' show ?thesis by blast
qed

section \<open>Further properties\<close>

text \<open>
  The index accesses \<open>xs[0]\<close>, \<open>xs[1]\<close> of \<open>splitHyphen\<close> and \<open>fs[0]\<close>, \<open>fs[1]\<close> of
  \<open>minMaxXY\<close> are always in range: each follows a successful \<open>strings.Contains\<close> for the
  separator, so that the split has at least two parts. Neither function panics.
\<close>

theorem range_resolver_never_panics:
  "splitHyphen s \<noteq> Inl (Panic p) \<and> minMaxXY t \<noteq> Inl (Panic p)"
  by (simp add: splitHyphen_no_panic minMaxXY_no_panic)

lemma ParseUint8_le: "ParseUint8 s = Inr n \<Longrightarrow> n \<le> 255"
proof -
  have "parse_digits m cs k = Inr n \<Longrightarrow> k \<le> m \<Longrightarrow> n \<le> m" for m cs k
    by (induction m cs k rule: parse_digits.induct) (auto split: if_splits)
  then show "ParseUint8 s = Inr n \<Longrightarrow> n \<le> 255"
    by (auto simp: ParseUint8_def split: if_splits sum.splits)
qed

text \<open>
  In \<open>main.go\<close>, a color prefix that is not in the color table and has at least three
  comma-separated parts is read as the triplet of its first three parts: when
  \<open>ParseUint\<close> accepts all three, the fill color has these channels, each at most 255,
  and alpha 255; when it rejects one of them, the run ends with the color error 5.
\<close>

theorem arg_color_triplet:
  assumes "colors color = None" and "CHR '':'' \<notin> set color" and "CHR '':'' \<notin> set xy"
    and "Split color CHR '','' = r # g # b # others"
  shows "(ParseUint8 r = Inr rr \<and> ParseUint8 g = Inr gg \<and> ParseUint8 b = Inr bb \<longrightarrow>
            arg_color colors config (color @ '':'' @ xy)
              = Inr (RGBA (of_nat rr) (of_nat gg) (of_nat bb) 255, xy) \<and>
            rr \<le> 255 \<and> gg \<le> 255 \<and> bb \<le> 255) \<and>
         ((\<exists>e. ParseUint8 r = Inl e) \<or> (\<exists>e. ParseUint8 g = Inl e) \<or> (\<exists>e. ParseUint8 b = Inl e)
            \<longrightarrow> arg_color colors config (color @ '':'' @ xy) = Inl (Exit exitCodeColorError))"
proof -
  have f: "Split (color @ '':'' @ xy) CHR '':'' = color # xy # []"
    using assms(2,3) by (simp add: Split_append Split_no_sep)
  have unfold: "arg_color colors config (color @ '':'' @ xy) =
     (case ParseUint8 r of Inl e \<Rightarrow> Inl (Exit exitCodeColorError) | Inr rr \<Rightarrow>
      (case ParseUint8 g of Inl e \<Rightarrow> Inl (Exit exitCodeColorError) | Inr gg \<Rightarrow>
       (case ParseUint8 b of Inl e \<Rightarrow> Inl (Exit exitCodeColorError) | Inr bb \<Rightarrow>
          Inr (RGBA (of_nat rr) (of_nat gg) (of_nat bb) 255, xy))))"
    using assms(1,4) f
    by (auto simp: arg_color_def Contains_def at_def Let_def split: sum.splits)
  show ?thesis
    using unfold by (auto dest: ParseUint8_le split: sum.splits)
qed

text \<open>The prefixes \<open>75,0,0\<close> of the usage text and \<open>1,2,x\<close>, with the sample color table.\<close>

theorem arg_color_triplet_witness:
  "sample_colors ''75,0,0'' = None \<and> Split ''75,0,0'' CHR '','' = [''75'', ''0'', ''0''] \<and>
   ParseUint8 ''75'' = Inr 75 \<and> ParseUint8 ''0'' = Inr 0 \<and>
   arg_color sample_colors (default_config []) ''75,0,0:0,0-4''
     = Inr (RGBA 75 0 0 255, ''0,0-4'') \<and>
   sample_colors ''1,2,x'' = None \<and> Split ''1,2,x'' CHR '','' = [''1'', ''2'', ''x''] \<and>
   ParseUint8 ''x'' = Inl (NumError ''x'' ErrSyntax) \<and>
   arg_color sample_colors (default_config []) ''1,2,x:0,0'' = Inl (Exit exitCodeColorError)"
proof -
  have c1: "sample_colors ''75,0,0'' = None" and c2: "sample_colors ''1,2,x'' = None"
    by (simp_all add: sample_colors_def)
  have s1: "Split ''75,0,0'' CHR '','' = ''75'' # ''0'' # ''0'' # []"
    and s2: "Split ''1,2,x'' CHR '','' = ''1'' # ''2'' # ''x'' # []" by simp_all
  have n1: "CHR '':'' \<notin> set ''75,0,0''" and n2: "CHR '':'' \<notin> set ''0,0-4''"
    and n3: "CHR '':'' \<notin> set ''1,2,x''" and n4: "CHR '':'' \<notin> set ''0,0''" by simp_all
  have p: "ParseUint8 ''75'' = Inr 75" "ParseUint8 ''0'' = Inr 0"
    "ParseUint8 ''x'' = Inl (NumError ''x'' ErrSyntax)"
    by (simp_all add: eval_defs)
  from arg_color_triplet [where colors = sample_colors and color = "''75,0,0''",
      OF c1 n1 n2 s1, where rr = 75 and gg = 0 and bb = 0 and config = "default_config []"] p
  have a1: "arg_color sample_colors (default_config []) ''75,0,0:0,0-4''
     = Inr (RGBA 75 0 0 255, ''0,0-4'')" by simp
  from arg_color_triplet [where colors = sample_colors and color = "''1,2,x''",
      OF c2 n3 n4 s2, where config = "default_config []"] p
  have a2: "arg_color sample_colors (default_config []) ''1,2,x:0,0''
     = Inl (Exit exitCodeColorError)" by simp
  from c1 c2 s1 s2 p a1 a2 show ?thesis by simp
qed

text \<open>
  In the variant without literal colors the color prefix of an argument never fails.
  When the loop reaches an argument (the options parse, the output opens, the image is
  allocated and the arguments before it are drawn) whose coordinate part fails to parse,
  the run ends with exit code 3, whatever the color names, and \<open>png.Encode\<close> is never
  called.
\<close>

theorem Main_base_rectangle_error:
  assumes "docopt_ParseArgs w args = Some config"
    and "OutFile config = [] \<or> os_Create w (OutFile config)"
    and "image_NewRGBA w (Width config) (Height config) = None"
    and "Args config = pre @ arg # post"
    and "\<forall>a \<in> set pre. \<exists>dp. loop_body_base (colors_of w) config (Bounds_Max (Width config))
                               (Bounds_Max (Height config)) a = Inr dp"
    and "arg_color_base (colors_of w) config arg = Inr (c, xy)" and "minMaxXY xy = Inl f"
  shows "fst (Main_base w args) = Exit exitCodeRectangleError \<and>
         Encode \<notin> set (snd (Main_base w args))"
proof -
  let ?b = "loop_body_base (colors_of w) config (Bounds_Max (Width config))
              (Bounds_Max (Height config))"
  from assms(6,7) have bad: "?b arg = Inl (Exit exitCodeRectangleError)"
    by (simp add: loop_body_base_def arg_draw_error)
  have r: "fst (render ?b (Args config) dest) = Some (Exit exitCodeRectangleError)" for dest
    unfolding assms(4) using assms(5) bad by (rule render_first_failure)
  show ?thesis
    unfolding Main_base_def
    by (rule Main_with_stops [where body = loop_body_base, OF assms(1,2,3) r])
qed

text \<open>The run on \<open>redd:0,0\<close>, \<open>zz\<close> in the sample world, with the default options.\<close>

theorem Main_base_rectangle_error_witness:
  "image_NewRGBA sample_world 200 200 = None \<and>
   arg_color_base sample_colors (default_config [''redd:0,0'', ''zz'']) ''zz''
     = Inr (RGBA 0 0 0 0, ''zz'') \<and>
   minMaxXY ''zz'' = Inl (Error NeedComma) \<and>
   fst (Main_base sample_world [''redd:0,0'', ''zz'']) = Exit exitCodeRectangleError \<and>
   Encode \<notin> set (snd (Main_base sample_world [''redd:0,0'', ''zz'']))"
proof -
  let ?args = "[''redd:0,0'', ''zz'']"
  let ?c = "default_config ?args"
  have n: "image_NewRGBA sample_world 200 200 = None"
    using image_NewRGBA_sample [of "[]"] by (simp add: default_config_def)
  have a: "arg_color_base (colors_of sample_world) ?c ''zz'' = Inr (RGBA 0 0 0 0, ''zz'')"
    by (simp add: arg_color_base_def Contains_def lookup_def sample_colors_def
        default_config_def sample_run)
  have m: "minMaxXY ''zz'' = Inl (Error NeedComma)"
    by (simp add: minMaxXY_def Contains_def)
  have m0: "minMaxXY ''0,0'' = Inr (0, 0, 0, 0)"
    by (simp add: minMaxXY_def splitHyphen_def eval_defs)
  have "arg_color_base sample_colors ?c ''redd:0,0'' = Inr (RGBA 0 0 0 0, ''0,0'')"
    by (simp add: arg_color_base_def Contains_def at_def lookup_def sample_colors_def)
  then have "\<exists>dp. loop_body_base sample_colors ?c 200 200 ''redd:0,0'' = Inr dp"
    using arg_draw_ok [OF m0, of ?c 200 200 sample_colors "RGBA 0 0 0 0"]
    by (auto simp: loop_body_base_def sample_run)
  then have pre: "\<forall>a \<in> set [''redd:0,0'']. \<exists>dp. loop_body_base (colors_of sample_world) ?c
       (Bounds_Max (Width ?c)) (Bounds_Max (Height ?c)) a = Inr dp"
    by (simp add: sample_run)
  have s: "Args ?c = [''redd:0,0''] @ ''zz'' # []" by (simp add: sample_run)
  from Main_base_rectangle_error [OF sample_run(1,2) image_NewRGBA_sample s pre a m] n a m
  show ?thesis by (simp add: sample_run)
qed

text \<open>
  When \<open>image.NewRGBA\<close> does not return, the process dies before the loop: no argument is
  looked at, nothing is drawn or encoded. A width of \<open>2^63 - 1\<close> with a height of 2 is
  such a case, whatever the runtime can allocate.
\<close>

theorem Main_huge_image:
  assumes "docopt_ParseArgs w args = Some config"
    and "OutFile config = [] \<or> os_Create w (OutFile config)"
    and "image_NewRGBA w (Width config) (Height config) = Some p"
  shows "Main w args = (Crash p, if OutFile config = [] then [] else [Create (OutFile config)]) \<and>
     Main_base w args = (Crash p, if OutFile config = [] then [] else [Create (OutFile config)]) \<and>
     image_NewRGBA w 9223372036854775807 2 = Some HugeDimensions"
  using assms image_NewRGBA_huge [of w]
  by (auto simp: Main_def Main_base_def Main_with_def Let_def)

text \<open>The sample world with the options \<open>-W 9223372036854775807 -H 2\<close>.\<close>

theorem Main_huge_image_witness:
  "Main (sample_world\<lparr>docopt_ParseArgs := \<lambda>args. Some ((default_config args)
       \<lparr>Width := 9223372036854775807, Height := 2\<rparr>)\<rparr>) [''zz'']
     = (Crash HugeDimensions, [])"
proof -
  let ?w = "sample_world\<lparr>docopt_ParseArgs := \<lambda>args. Some ((default_config args)
       \<lparr>Width := 9223372036854775807, Height := 2\<rparr>)\<rparr>"
  let ?c = "(default_config [''zz''])\<lparr>Width := 9223372036854775807, Height := 2\<rparr>"
  have p: "docopt_ParseArgs ?w [''zz''] = Some ?c" by simp
  have o: "OutFile ?c = [] \<or> os_Create ?w (OutFile ?c)" by (simp add: default_config_def)
  have n: "image_NewRGBA ?w (Width ?c) (Height ?c) = Some HugeDimensions"
    by (simp add: image_NewRGBA_huge)
  from Main_huge_image [OF p o n] show ?thesis by (simp add: default_config_def)
qed

end
